theory Spec2Isabelle
  imports Complex_Main
begin

section \<open>External links of the desktop window\<close>

text \<open>
  A shallow embedding of \<^verbatim>\<open>desktop/window-handlers/external-links/index.js\<close>:
  the handlers the module attaches to a window (\<^verbatim>\<open>will-navigate\<close>,
  \<^verbatim>\<open>new-window\<close>) and to the main-process IPC emitter
  (\<^verbatim>\<open>cannot-open-editor\<close>, \<^verbatim>\<open>jetpack-module-activate-status\<close>),
  with the helpers they call.
\<close>

subsection \<open>URL objects and the \<^verbatim>\<open>url\<close> module\<close>

text \<open>
  A \<^verbatim>\<open>URL\<close> object, as far as the module reads and writes it: the string
  values of its properties. An assignment to a property is a field update.
\<close>

record url =
  protocol :: string
  username :: string
  password :: string
  hostname :: string
  port :: string
  pathname :: string
  search :: string
  hash :: string

text \<open>Exceptions: the \<^verbatim>\<open>TypeError\<close> of \<^verbatim>\<open>new URL\<close> on a string that does
  not parse, and the failure of a collaborator.\<close>

datatype js_error = TypeError | Collaborator_Error

text \<open>
  What the module imports from Node's \<^verbatim>\<open>url\<close>: the constructor
  \<^verbatim>\<open>new URL(s)\<close> (\<open>None\<close> when it throws), \<^verbatim>\<open>format\<close>, and the lookup
  \<^verbatim>\<open>u.searchParams.get(name)\<close> (\<open>None\<close> for \<^verbatim>\<open>null\<close>). The handlers take it
  as a parameter.
\<close>

record url_module =
  new_URL :: "string \<Rightarrow> url option"
  format :: "url \<Rightarrow> string"
  searchParams_get :: "url \<Rightarrow> string \<Rightarrow> string option"

text \<open>\<^verbatim>\<open>lib/config\<close>, as far as the module reads it.\<close>

record config =
  server_host :: string
  server_url :: string
  wordpress_host :: string

subsection \<open>The policy lists and the URL classifier\<close>

text \<open>
  The arithmetic of JavaScript numbers is a parameter of the model: the type of the
  numbers, the number a numeric literal of the source denotes (given as the real the
  literal is written as), and the operators \<^verbatim>\<open>+\<close> and \<^verbatim>\<open>*\<close> on numbers. What is
  proved of the handlers holds for the doubles of the runtime, whatever their rounding.
\<close>

record 'n js_arithmetic =
  num_literal :: "real \<Rightarrow> 'n"
  num_add :: "'n \<Rightarrow> 'n \<Rightarrow> 'n"
  num_mul :: "'n \<Rightarrow> 'n \<Rightarrow> 'n"

text \<open>The module variables.\<close>

definition SCALE_NEW_WINDOW_FACTOR :: "'n js_arithmetic \<Rightarrow> 'n" where
  "SCALE_NEW_WINDOW_FACTOR ar = num_literal ar 0.9"

definition OFFSET_NEW_WINDOW :: "'n js_arithmetic \<Rightarrow> 'n" where
  "OFFSET_NEW_WINDOW ar = num_literal ar 50"

text \<open>The two lists, built from the configuration when the module is loaded. In the
  fifth literal of the first list the source escapes dots and a slash with
  backslashes; in a JavaScript string such an escape is the character itself.\<close>

definition ALWAYS_OPEN_IN_APP :: "config \<Rightarrow> string list" where
  "ALWAYS_OPEN_IN_APP cfg =
    [''http://'' @ server_host cfg,
     ''http://localhost'',
     ''http://calypso.localhost:3000/*'',
     ''https:/public-api.wordpress.com'',
     ''https://wordpress.com/wp-login.php'',
     ''http://127.0.0.1:41050/*'']"

definition DONT_OPEN_IN_BROWSER :: "config \<Rightarrow> string list" where
  "DONT_OPEN_IN_BROWSER cfg =
    [server_url cfg,
     ''https://public-api.wordpress.com/connect/'']"

definition domainAndPathSame :: "url \<Rightarrow> url \<Rightarrow> bool" where
  "domainAndPathSame first second =
    (hostname first = hostname second \<and>
     (pathname first = pathname second \<or> pathname second = ''/*''))"

text \<open>The value \<^verbatim>\<open>isValidBrowserUrl\<close> returns: the string it was given, or
  \<^verbatim>\<open>false\<close>.\<close>

datatype js_value = JString string | JBool bool

fun truthy :: "js_value \<Rightarrow> bool" where
  "truthy (JString s) = (s \<noteq> [])"
| "truthy (JBool b) = b"

definition isValidBrowserUrl :: "url_module \<Rightarrow> string \<Rightarrow> js_error + js_value" where
  "isValidBrowserUrl lib u =
    (case new_URL lib u of
       None \<Rightarrow> Inl TypeError
     | Some parsedUrl \<Rightarrow>
         if protocol parsedUrl = ''http:'' \<or> protocol parsedUrl = ''https:''
         then Inr (JString u)
         else Inr (JBool False))"

subsection \<open>The world the handlers act on\<close>

text \<open>
  The effects of the module are calls to collaborators. The world records them in call
  order: \<^verbatim>\<open>shell.openExternal(url)\<close>, \<^verbatim>\<open>event.preventDefault()\<close> (by the
  number of the event object), the logger's lines (level and message text; further
  arguments are not recorded), the button lists of the message boxes shown,
  \<^verbatim>\<open>showMySites(mainWindow)\<close>, \<^verbatim>\<open>Settings.saveSetting(key, value)\<close>,
  \<^verbatim>\<open>mainWindow.webContents.send(channel, payload)\<close>, and the listeners registered on
  \<^verbatim>\<open>ipcMain\<close>.
\<close>

datatype log_level = Log_Info | Log_Error

datatype setting_key = LAST_LOCATION

datatype payload = Str string | Site_Id nat | Site_Option nat string

text \<open>The payload of \<^verbatim>\<open>cannot-open-editor\<close>.\<close>

record info =
  siteId :: nat
  origin :: string
  editorUrl :: string
  isAdmin :: bool

text \<open>A listener on \<^verbatim>\<open>ipcMain\<close>: one of the four arrow functions of the module.
  The two registered inside \<^verbatim>\<open>enableSSOandContinue\<close> are closures over the
  \<^verbatim>\<open>info\<close> of the request that registered them.\<close>

datatype listener =
    Cannot_Open_Editor
  | Jetpack_Module_Activate_Status
  | Enable_Site_Option_Response info
  | Request_Site_Response info

record world =
  opened :: "string list"
  prevented :: "nat list"
  logged :: "(log_level \<times> string) list"
  dialogs :: "string list list"
  my_sites :: nat
  settings :: "(setting_key \<times> string) list"
  sent :: "(string \<times> payload) list"
  listeners :: "(string \<times> listener) list"

text \<open>
  What the collaborators guarded by the \<^verbatim>\<open>try\<close> block do when called: the
  message box throws or returns the index of the button clicked, and the two helper
  modules \<^verbatim>\<open>lib/calypso-commands\<close> and \<^verbatim>\<open>lib/settings\<close> throw or return.
  The logger and the primitives of the runtime (\<^verbatim>\<open>shell.openExternal\<close>,
  \<^verbatim>\<open>event.preventDefault\<close>, \<^verbatim>\<open>ipcMain.on\<close>, \<^verbatim>\<open>ipcMain.removeAllListeners\<close>,
  \<^verbatim>\<open>webContents.send\<close>) are taken to return.
\<close>

record env =
  showMessageBox :: "js_error + nat"
  showMySites_throws :: bool
  saveSetting_throws :: bool

text \<open>A statement: it ends normally with a value or throws, and leaves a world.\<close>

type_synonym 'a io = "world \<Rightarrow> (js_error + 'a) \<times> world"

definition ret :: "'a \<Rightarrow> 'a io" where
  "ret v w = (Inr v, w)"

definition throw :: "js_error \<Rightarrow> 'a io" where
  "throw e w = (Inl e, w)"

definition lift :: "js_error + 'a \<Rightarrow> 'a io" where
  "lift r w = (r, w)"

definition bind_io :: "'a io \<Rightarrow> ('a \<Rightarrow> 'b io) \<Rightarrow> 'b io" where
  "bind_io m f w = (case m w of (Inl e, w') \<Rightarrow> (Inl e, w') | (Inr v, w') \<Rightarrow> f v w')"

definition seq_io :: "unit io \<Rightarrow> 'b io \<Rightarrow> 'b io" where
  "seq_io m n = bind_io m (\<lambda>_. n)"

definition try_catch :: "unit io \<Rightarrow> (js_error \<Rightarrow> unit io) \<Rightarrow> unit io" where
  "try_catch m h w = (case m w of (Inl e, w') \<Rightarrow> h e w' | (Inr v, w') \<Rightarrow> (Inr v, w'))"

definition log_info :: "string \<Rightarrow> unit io" where
  "log_info msg w = (Inr (), w\<lparr>logged := logged w @ [(Log_Info, msg)]\<rparr>)"

definition log_error :: "string \<Rightarrow> unit io" where
  "log_error msg w = (Inr (), w\<lparr>logged := logged w @ [(Log_Error, msg)]\<rparr>)"

definition shell_openExternal :: "string \<Rightarrow> unit io" where
  "shell_openExternal u w = (Inr (), w\<lparr>opened := opened w @ [u]\<rparr>)"

definition preventDefault :: "nat \<Rightarrow> unit io" where
  "preventDefault event w = (Inr (), w\<lparr>prevented := prevented w @ [event]\<rparr>)"

definition webContents_send :: "string \<Rightarrow> payload \<Rightarrow> unit io" where
  "webContents_send channel p w = (Inr (), w\<lparr>sent := sent w @ [(channel, p)]\<rparr>)"

definition ipc_on :: "string \<Rightarrow> listener \<Rightarrow> unit io" where
  "ipc_on channel l w = (Inr (), w\<lparr>listeners := listeners w @ [(channel, l)]\<rparr>)"

definition ipc_removeAllListeners :: "string \<Rightarrow> unit io" where
  "ipc_removeAllListeners channel w =
    (Inr (), w\<lparr>listeners := filter (\<lambda>cl. fst cl \<noteq> channel) (listeners w)\<rparr>)"

text \<open>The collaborators that may throw. A message box that returns has been shown with
  the buttons it was given.\<close>

definition dialog_showMessageBox :: "env \<Rightarrow> string list \<Rightarrow> nat io" where
  "dialog_showMessageBox en buttons w =
    (case showMessageBox en of
       Inl e \<Rightarrow> (Inl e, w)
     | Inr selected \<Rightarrow> (Inr selected, w\<lparr>dialogs := dialogs w @ [buttons]\<rparr>))"

definition showMySites :: "env \<Rightarrow> unit io" where
  "showMySites en w =
    (if showMySites_throws en then (Inl Collaborator_Error, w)
     else (Inr (), w\<lparr>my_sites := Suc (my_sites w)\<rparr>))"

definition saveSetting :: "env \<Rightarrow> setting_key \<Rightarrow> string \<Rightarrow> unit io" where
  "saveSetting en k v w =
    (if saveSetting_throws en then (Inl Collaborator_Error, w)
     else (Inr (), w\<lparr>settings := settings w @ [(k, v)]\<rparr>))"

subsection \<open>The helpers of the module\<close>

definition construct_URL :: "url_module \<Rightarrow> string \<Rightarrow> js_error + url" where
  "construct_URL lib s =
    (case new_URL lib s of None \<Rightarrow> Inl TypeError | Some u \<Rightarrow> Inr u)"

definition openInBrowser :: "url_module \<Rightarrow> nat \<Rightarrow> string \<Rightarrow> unit io" where
  "openInBrowser lib event u =
    bind_io (lift (isValidBrowserUrl lib u)) (\<lambda>valid.
    seq_io
      (if truthy valid
       then seq_io (log_info (''Using system default handler for URL: '' @ u))
              (shell_openExternal u)
       else ret ())
      (preventDefault event))"

definition replaceInternalCalypsoUrl :: "config \<Rightarrow> url \<Rightarrow> url io" where
  "replaceInternalCalypsoUrl cfg u =
    (if hostname u = server_host cfg
     then seq_io (log_info ''Replacing internal url with public url'')
            (ret (u\<lparr>hostname := wordpress_host cfg, port := []\<rparr>))
     else ret u)"

text \<open>The \<^verbatim>\<open>for\<close> loop both window handlers run over a policy list: every entry
  is parsed when its turn comes, and the loop stops at the first entry that matches.\<close>

fun matches_entry :: "url_module \<Rightarrow> url \<Rightarrow> string list \<Rightarrow> js_error + bool" where
  "matches_entry lib parsedUrl [] = Inr False"
| "matches_entry lib parsedUrl (entry # entries) =
    (case new_URL lib entry of
       None \<Rightarrow> Inl TypeError
     | Some entryUrl \<Rightarrow>
         if domainAndPathSame parsedUrl entryUrl then Inr True
         else matches_entry lib parsedUrl entries)"

subsection \<open>The window handlers\<close>

definition will_navigate :: "url_module \<Rightarrow> config \<Rightarrow> nat \<Rightarrow> string \<Rightarrow> unit io" where
  "will_navigate lib cfg event u =
    bind_io (lift (construct_URL lib u)) (\<lambda>parsedUrl.
    bind_io (lift (matches_entry lib parsedUrl (ALWAYS_OPEN_IN_APP cfg))) (\<lambda>matched.
    if matched then ret () else openInBrowser lib event u))"

text \<open>The placement options of a \<^verbatim>\<open>new-window\<close> event (\<^verbatim>\<open>x\<close>, \<^verbatim>\<open>y\<close>,
  \<^verbatim>\<open>width\<close>, \<^verbatim>\<open>height\<close>), each a number.\<close>

record 'n options =
  opt_x :: 'n
  opt_y :: 'n
  opt_width :: 'n
  opt_height :: 'n

definition new_window ::
    "'n js_arithmetic \<Rightarrow> url_module \<Rightarrow> config \<Rightarrow> nat \<Rightarrow> string \<Rightarrow> 'n options \<Rightarrow>
      'n options io" where
  "new_window ar lib cfg event u opts =
    bind_io (lift (construct_URL lib u)) (\<lambda>parsedUrl.
    bind_io (lift (matches_entry lib parsedUrl (DONT_OPEN_IN_BROWSER cfg))) (\<lambda>matched.
    if matched
    then seq_io (log_info (''Open in new window for '' @ u))
           (ret (opts\<lparr>opt_x := num_add ar (opt_x opts) (OFFSET_NEW_WINDOW ar),
                       opt_y := num_add ar (opt_y opts) (OFFSET_NEW_WINDOW ar),
                       opt_width := num_mul ar (opt_width opts) (SCALE_NEW_WINDOW_FACTOR ar),
                       opt_height := num_mul ar (opt_height opts) (SCALE_NEW_WINDOW_FACTOR ar)\<rparr>))
    else bind_io (replaceInternalCalypsoUrl cfg parsedUrl) (\<lambda>replaced.
         seq_io (openInBrowser lib event (format lib replaced)) (ret opts))))"

subsection \<open>The listeners on the IPC emitter\<close>

definition extractRelativeEditorUrl :: "url_module \<Rightarrow> string \<Rightarrow> js_error + string" where
  "extractRelativeEditorUrl lib u =
    (case new_URL lib u of
       None \<Rightarrow> Inl TypeError
     | Some parsed \<Rightarrow>
         (case searchParams_get lib parsed ''redirect_to'' of
            None \<Rightarrow> Inr u
          | Some redirect \<Rightarrow>
              if redirect = [] then Inr u
              else (case new_URL lib redirect of
                      None \<Rightarrow> Inl TypeError
                    | Some parsedRedirect \<Rightarrow> Inr (pathname parsedRedirect))))"

definition buttons :: "bool \<Rightarrow> string list" where
  "buttons admin =
    (if admin then [''Enable SSO and Continue'', ''Proceed in Browser'', ''Cancel'']
     else [''Proceed in Browser'', ''Cancel''])"

definition enableSSOandContinue :: "info \<Rightarrow> unit io" where
  "enableSSOandContinue i =
    seq_io (log_info ''User selected 'Enable SSO and Continue' '')
   (seq_io (ipc_on ''enable-site-option-response'' (Enable_Site_Option_Response i))
           (webContents_send ''enable-site-option'' (Site_Option (siteId i) ''sso'')))"

definition proceedInBrowser :: "url_module \<Rightarrow> nat \<Rightarrow> info \<Rightarrow> unit io" where
  "proceedInBrowser lib event i =
    seq_io (log_info ''User selected 'Proceed in Browser'...'')
           (openInBrowser lib event (editorUrl i))"

definition cancel :: "unit io" where
  "cancel = log_info ''User selected 'Cancel'...''"

text \<open>\<^verbatim>\<open>promptWpAdminAuth\<close>: the statements of its \<^verbatim>\<open>try\<close> block, and the
  function, which catches what they throw and logs it.\<close>

definition promptWpAdminAuth_try ::
    "url_module \<Rightarrow> env \<Rightarrow> nat \<Rightarrow> info \<Rightarrow> url \<Rightarrow> unit io" where
  "promptWpAdminAuth_try lib en event i parsedURL =
    bind_io (dialog_showMessageBox en (buttons (isAdmin i))) (\<lambda>selected.
    seq_io
      (if selected = 0 then
         (if isAdmin i then enableSSOandContinue i else proceedInBrowser lib event i)
       else if selected = 1 then
         (if isAdmin i then proceedInBrowser lib event i else cancel)
       else if selected = 2 then cancel
       else ret ())
      (if \<not> (isAdmin i \<and> selected = 0)
       then seq_io (showMySites en)
              (saveSetting en LAST_LOCATION (''/stats/day/'' @ hostname parsedURL))
       else ret ()))"

definition promptWpAdminAuth :: "url_module \<Rightarrow> env \<Rightarrow> nat \<Rightarrow> info \<Rightarrow> url \<Rightarrow> unit io" where
  "promptWpAdminAuth lib en event i parsedURL =
    try_catch (promptWpAdminAuth_try lib en event i parsedURL)
      (\<lambda>error. log_error ''Failed to prompt for Jetpack authorization: '')"

text \<open>The \<^verbatim>\<open>cannot-open-editor\<close> listener. The wait of 300 ms before the prompt
  is not modelled: no statement of the listener stands between the parse of the origin
  and the prompt.\<close>

definition cannot_open_editor :: "url_module \<Rightarrow> env \<Rightarrow> nat \<Rightarrow> info \<Rightarrow> unit io" where
  "cannot_open_editor lib en event i =
    seq_io (log_info ''Cannot open editor for site: '')
   (bind_io (lift (construct_URL lib (origin i))) (\<lambda>parsedURL.
    promptWpAdminAuth lib en event i parsedURL))"

text \<open>What is emitted on \<^verbatim>\<open>ipcMain\<close>: the channel and its arguments.\<close>

datatype ipc_event =
    Ev_Cannot_Open_Editor info
  | Ev_Jetpack_Module_Activate_Status
  | Ev_Enable_Site_Option_Response string
  | Ev_Request_Site_Response

fun channel :: "ipc_event \<Rightarrow> string" where
  "channel (Ev_Cannot_Open_Editor i) = ''cannot-open-editor''"
| "channel Ev_Jetpack_Module_Activate_Status = ''jetpack-module-activate-status''"
| "channel (Ev_Enable_Site_Option_Response status) = ''enable-site-option-response''"
| "channel Ev_Request_Site_Response = ''request-site-response''"

text \<open>An \<^verbatim>\<open>async\<close> listener returns a promise: what it throws does not reach the
  emitter. A listener receives the events of its own channel only; run on the arguments
  of another channel, the destructuring of its parameter throws.\<close>

definition async :: "unit io \<Rightarrow> unit io" where
  "async m w = (case m w of (Inl e, w') \<Rightarrow> (Inr (), w') | (Inr v, w') \<Rightarrow> (Inr v, w'))"

fun run_listener :: "url_module \<Rightarrow> env \<Rightarrow> nat \<Rightarrow> listener \<Rightarrow> ipc_event \<Rightarrow> unit io" where
  "run_listener lib en event Cannot_Open_Editor (Ev_Cannot_Open_Editor i) =
     async (cannot_open_editor lib en event i)"
| "run_listener lib en event Jetpack_Module_Activate_Status e =
     async (log_info ''Jetpack module activation status: ${info.status}: '')"
| "run_listener lib en event (Enable_Site_Option_Response i)
       (Ev_Enable_Site_Option_Response status) =
     seq_io (ipc_removeAllListeners ''enable-site-option-response'')
       (if status = ''success''
        then seq_io (log_info ''SSO enabled for site: '')
            (seq_io (ipc_on ''request-site-response'' (Request_Site_Response i))
                    (webContents_send ''request-site'' (Site_Id (siteId i))))
        else log_info ''Failed to enable SSO for site: '')"
| "run_listener lib en event (Request_Site_Response i) e =
     seq_io (log_info ''Received state refresh for site: '')
       (bind_io (lift (extractRelativeEditorUrl lib (editorUrl i))) (\<lambda>relative.
        webContents_send ''navigate'' (Str relative)))"
| "run_listener lib en event l e = throw TypeError"

fun run_listeners :: "url_module \<Rightarrow> env \<Rightarrow> nat \<Rightarrow> listener list \<Rightarrow> ipc_event \<Rightarrow> unit io" where
  "run_listeners lib en event [] e = ret ()"
| "run_listeners lib en event (l # ls) e =
     seq_io (run_listener lib en event l e) (run_listeners lib en event ls e)"

text \<open>\<^verbatim>\<open>ipcMain.emit\<close>: the listeners registered on the channel when the event is
  emitted are called in the order of their registration.\<close>

definition ipc_emit :: "url_module \<Rightarrow> env \<Rightarrow> nat \<Rightarrow> ipc_event \<Rightarrow> unit io" where
  "ipc_emit lib en event e w =
    run_listeners lib en event
      (map snd (filter (\<lambda>cl. fst cl = channel e) (listeners w))) e w"

text \<open>The module's export, as far as \<^verbatim>\<open>ipcMain\<close> goes: it registers the two
  permanent listeners.\<close>

definition module_exports :: "unit io" where
  "module_exports =
    seq_io (ipc_on ''cannot-open-editor'' Cannot_Open_Editor)
           (ipc_on ''jetpack-module-activate-status'' Jetpack_Module_Activate_Status)"

definition initial_world :: world where
  "initial_world =
    \<lparr>opened = [], prevented = [], logged = [], dialogs = [], my_sites = 0,
     settings = [], sent = [], listeners = []\<rparr>"

subsection \<open>A model of the \<^verbatim>\<open>url\<close> module on plain input\<close>

text \<open>
  The theorems about the handlers hold for every \<open>url_module\<close>. The closed
  instances below run the handlers on \<open>node_url\<close>, which follows the URL Standard's
  parser (\<^verbatim>\<open>new URL(s)\<close> with one argument, so without a base) on plain ASCII input:
  the scheme, the slashes after a special scheme, credentials, host, port (with the
  default port dropped), path, query and fragment. It does no percent-encoding, no
  removal of dot segments, no IPv4 or IPv6 normalisation and none of the treatment of
  Windows drive letters; a string that would need one of them (such as
  \<open>http://localhost/a/..\<close> or \<open>http://127.1/\<close>) is outside its domain. The record
  of a URL holds the \<^verbatim>\<open>search\<close> and \<^verbatim>\<open>hash\<close> properties, which are empty for an
  empty query or fragment as for none, so a URL that ends in a bare \<open>?\<close> or \<open>#\<close> is
  outside the domain of \<open>formatURL\<close>. No instance below is at such a string.
\<close>

definition lower_alpha :: string where
  "lower_alpha = ''abcdefghijklmnopqrstuvwxyz''"

definition upper_alpha :: string where
  "upper_alpha = ''ABCDEFGHIJKLMNOPQRSTUVWXYZ''"

definition digits :: string where
  "digits = ''0123456789''"

definition is_alpha :: "char \<Rightarrow> bool" where
  "is_alpha c = (c \<in> set (lower_alpha @ upper_alpha))"

definition is_digit :: "char \<Rightarrow> bool" where
  "is_digit c = (c \<in> set digits)"

definition to_lower :: "char \<Rightarrow> char" where
  "to_lower c = (case map_of (zip upper_alpha lower_alpha) c of Some l \<Rightarrow> l | None \<Rightarrow> c)"

definition is_scheme_char :: "char \<Rightarrow> bool" where
  "is_scheme_char c = (is_alpha c \<or> is_digit c \<or> c \<in> set ''+-.'')"

definition c0_or_space :: "char \<Rightarrow> bool" where
  "c0_or_space c = ((of_char c :: nat) \<le> 32)"

definition is_slash :: "char \<Rightarrow> bool" where
  "is_slash c = (c = CHR ''/'' \<or> c = CHR 0x5C)"

text \<open>Leading and trailing C0 controls and spaces are dropped, and every tab and
  newline.\<close>

definition strip :: "string \<Rightarrow> string" where
  "strip s =
    filter (\<lambda>c. c \<noteq> CHR 0x09 \<and> c \<noteq> CHR 0x0A \<and> c \<noteq> CHR 0x0D)
      (rev (dropWhile c0_or_space (rev (dropWhile c0_or_space s))))"

text \<open>The scheme: a letter, then letters, digits, \<open>+\<close>, \<open>-\<close> and \<open>.\<close> up to a
  colon. Without one the parser has no scheme and, having no base, fails.\<close>

definition split_scheme :: "string \<Rightarrow> (string \<times> string) option" where
  "split_scheme s =
    (case (takeWhile is_scheme_char s, dropWhile is_scheme_char s) of
       (c # cs, d # r) \<Rightarrow>
         if is_alpha c \<and> d = CHR '':'' then Some (map to_lower (c # cs), r) else None
     | _ \<Rightarrow> None)"

definition split_first :: "char \<Rightarrow> string \<Rightarrow> string \<times> string" where
  "split_first c s = (takeWhile (\<lambda>d. d \<noteq> c) s, drop 1 (dropWhile (\<lambda>d. d \<noteq> c) s))"

definition split_last :: "char \<Rightarrow> string \<Rightarrow> string \<times> string" where
  "split_last c s =
    (rev (drop 1 (dropWhile (\<lambda>d. d \<noteq> c) (rev s))), rev (takeWhile (\<lambda>d. d \<noteq> c) (rev s)))"

definition digit_value :: "char \<Rightarrow> nat" where
  "digit_value c = (case map_of (zip digits [0, 1, 2, 3, 4, 5, 6, 7, 8, 9]) c of Some n \<Rightarrow> n | None \<Rightarrow> 0)"

definition number_of :: "string \<Rightarrow> nat" where
  "number_of s = foldl (\<lambda>n c. 10 * n + digit_value c) 0 s"

text \<open>The decimal digits of a number given by digits: without leading zeros.\<close>

definition decimal :: "string \<Rightarrow> string" where
  "decimal s =
    (if dropWhile (\<lambda>c. c = CHR ''0'') s = [] then ''0''
     else dropWhile (\<lambda>c. c = CHR ''0'') s)"

definition default_port :: "string \<Rightarrow> nat option" where
  "default_port scheme =
    map_of [(''ftp'', 21), (''http'', 80), (''https'', 443), (''ws'', 80), (''wss'', 443)]
      scheme"

definition parse_port :: "string \<Rightarrow> string \<Rightarrow> string option" where
  "parse_port scheme s =
    (if s = [] then Some []
     else if \<not> list_all is_digit s \<or> 65535 < number_of s then None
     else if default_port scheme = Some (number_of s) then Some []
     else Some (decimal s))"

definition forbidden_host_char :: "char \<Rightarrow> bool" where
  "forbidden_host_char c =
    (c0_or_space c \<or> c \<in> set ''#/:<>?@[]^|'' \<or> c = CHR 0x5C)"

definition parse_host :: "bool \<Rightarrow> string \<Rightarrow> string option" where
  "parse_host special h =
    (if special \<and> h = [] then None
     else if list_ex forbidden_host_char h then None
     else if special \<and> list_ex (\<lambda>c. c = CHR ''%'' \<or> c = CHR 0x7F) h then None
     else Some (if special then map to_lower h else h))"

text \<open>The authority: credentials up to the last \<open>@\<close>, then the host and, after a
  colon, the port. The result is user name, password, host name and port.\<close>

definition parse_authority ::
    "bool \<Rightarrow> string \<Rightarrow> string \<Rightarrow> (string \<times> string \<times> string \<times> string) option" where
  "parse_authority special scheme a =
    (let has_credentials = (CHR ''@'' \<in> set a);
         credentials = (if has_credentials then fst (split_last (CHR ''@'') a) else []);
         hostport = (if has_credentials then snd (split_last (CHR ''@'') a) else a);
         h = fst (split_first (CHR '':'') hostport);
         p = snd (split_first (CHR '':'') hostport)
     in if has_credentials \<and> hostport = [] then None
        else if h = [] \<and> CHR '':'' \<in> set hostport then None
        else (case (parse_host special h, parse_port scheme p) of
                (Some h', Some p') \<Rightarrow>
                  Some (fst (split_first (CHR '':'') credentials),
                        snd (split_first (CHR '':'') credentials), h', p')
              | _ \<Rightarrow> None))"

text \<open>What follows the authority: path, then \<open>?\<close> and the query, then \<open>#\<close> and the
  fragment. The \<^verbatim>\<open>search\<close> and \<^verbatim>\<open>hash\<close> properties are empty for an empty query
  or fragment.\<close>

definition path_end :: "char \<Rightarrow> bool" where
  "path_end c = (c = CHR ''?'' \<or> c = CHR ''#'')"

definition path_of :: "string \<Rightarrow> string" where
  "path_of r = takeWhile (\<lambda>c. \<not> path_end c) r"

definition search_of :: "string \<Rightarrow> string" where
  "search_of r =
    (case dropWhile (\<lambda>c. \<not> path_end c) r of
       c # q \<Rightarrow>
         if c = CHR ''?'' \<and> takeWhile (\<lambda>d. d \<noteq> CHR ''#'') q \<noteq> []
         then c # takeWhile (\<lambda>d. d \<noteq> CHR ''#'') q else []
     | [] \<Rightarrow> [])"

definition hash_of :: "string \<Rightarrow> string" where
  "hash_of r =
    (case dropWhile (\<lambda>c. c \<noteq> CHR ''#'') r of
       c # f \<Rightarrow> if f \<noteq> [] then c # f else []
     | [] \<Rightarrow> [])"

definition authority_end :: "bool \<Rightarrow> char \<Rightarrow> bool" where
  "authority_end special c =
    (c = CHR ''/'' \<or> path_end c \<or> (special \<and> c = CHR 0x5C))"

definition with_authority :: "bool \<Rightarrow> string \<Rightarrow> string \<Rightarrow> url option" where
  "with_authority special scheme r =
    (case parse_authority special scheme (takeWhile (\<lambda>c. \<not> authority_end special c) r) of
       None \<Rightarrow> None
     | Some (user, pass, h, p) \<Rightarrow>
         (let t = dropWhile (\<lambda>c. \<not> authority_end special c) r;
              path = (if special
                      then map (\<lambda>c. if c = CHR 0x5C then CHR ''/'' else c) (path_of t)
                      else path_of t)
          in Some \<lparr>protocol = scheme @ '':'', username = user, password = pass,
                   hostname = h, port = p,
                   pathname = (if special \<and> path = [] then ''/'' else path),
                   search = search_of t, hash = hash_of t\<rparr>))"

definition without_authority :: "string \<Rightarrow> string \<Rightarrow> url" where
  "without_authority scheme r =
    \<lparr>protocol = scheme @ '':'', username = [], password = [], hostname = [], port = [],
     pathname = path_of r, search = search_of r, hash = hash_of r\<rparr>"

definition parseURL :: "string \<Rightarrow> url option" where
  "parseURL input =
    (case split_scheme (strip input) of
       None \<Rightarrow> None
     | Some (scheme, r) \<Rightarrow>
         if scheme \<in> set [''ftp'', ''http'', ''https'', ''ws'', ''wss'']
         then with_authority True scheme (dropWhile is_slash r)
         else if scheme = ''file''
         then (if list_all is_slash (take 2 r) \<and> 2 \<le> length r
               then (case parse_host False (takeWhile (\<lambda>c. \<not> authority_end True c) (drop 2 r)) of
                       None \<Rightarrow> None
                     | Some h \<Rightarrow>
                         Some ((without_authority scheme
                                 (dropWhile (\<lambda>c. \<not> authority_end True c) (drop 2 r)))
                               \<lparr>hostname := (if h = ''localhost'' then [] else map to_lower h),
                                pathname :=
                                  (if path_of (dropWhile (\<lambda>c. \<not> authority_end True c) (drop 2 r)) = []
                                   then ''/''
                                   else path_of (dropWhile (\<lambda>c. \<not> authority_end True c) (drop 2 r)))\<rparr>))
               else Some ((without_authority scheme r)
                           \<lparr>pathname := CHR ''/'' # dropWhile is_slash (path_of r)\<rparr>))
         else if take 2 r = ''//'' then with_authority False scheme (drop 2 r)
         else Some (without_authority scheme r))"

text \<open>\<^verbatim>\<open>format(urlObject)\<close> of a \<^verbatim>\<open>URL\<close> object with the default options: its
  serialisation.\<close>

definition formatURL :: "url \<Rightarrow> string" where
  "formatURL u =
    protocol u @
    (if hostname u \<noteq> [] \<or> protocol u = ''file:''
     then ''//'' @
          (if username u \<noteq> [] \<or> password u \<noteq> []
           then username u @ (if password u \<noteq> [] then '':'' @ password u else []) @ ''@''
           else []) @
          hostname u @ (if port u \<noteq> [] then '':'' @ port u else [])
     else []) @
    pathname u @ search u @ hash u"

text \<open>\<^verbatim>\<open>searchParams.get(name)\<close>: the query is split at \<open>&\<close>, each part at its first
  \<open>=\<close>, \<open>+\<close> is read as a space and \<open>%XY\<close> as the byte it encodes; the value of the
  first pair with the name, if any.\<close>

fun split_all :: "char \<Rightarrow> string \<Rightarrow> string list" where
  "split_all c [] = [[]]"
| "split_all c (d # r) =
    (if d = c then [] # split_all c r
     else (case split_all c r of x # xs \<Rightarrow> (d # x) # xs | [] \<Rightarrow> [[d]]))"

definition hex_value :: "char \<Rightarrow> nat option" where
  "hex_value c = map_of (zip ''0123456789abcdefABCDEF''
      [0, 1, 2, 3, 4, 5, 6, 7, 8, 9, 10, 11, 12, 13, 14, 15, 10, 11, 12, 13, 14, 15]) c"

fun form_decode :: "string \<Rightarrow> string" where
  "form_decode [] = []"
| "form_decode (c # r) =
    (if c = CHR ''+'' then CHR '' '' # form_decode r
     else if c = CHR ''%'' then
       (case map hex_value (take 2 r) of
          [Some a, Some b] \<Rightarrow> char_of (16 * a + b) # form_decode (drop 2 r)
        | _ \<Rightarrow> c # form_decode r)
     else c # form_decode r)"

definition searchParamsGet :: "url \<Rightarrow> string \<Rightarrow> string option" where
  "searchParamsGet u name =
    map_of
      (map (\<lambda>pair. (form_decode (fst (split_first (CHR ''='') pair)),
                     form_decode (snd (split_first (CHR ''='') pair))))
           (filter (\<lambda>pair. pair \<noteq> []) (split_all (CHR ''&'') (drop 1 (search u)))))
      name"

definition node_url :: url_module where
  "node_url = \<lparr>new_URL = parseURL, format = formatURL, searchParams_get = searchParamsGet\<rparr>"

subsection \<open>A model of the doubles of the runtime\<close>

text \<open>
  For the closed instances, numbers are the reals that are doubles, and \<open>binary64\<close>
  is their arithmetic: a literal, a sum and a product are the exact real rounded to 53
  significant bits, ties to the even mantissa. Overflow to an infinity, subnormal
  numbers, the sign of zero and \<^verbatim>\<open>NaN\<close> are outside the model.
\<close>

fun bit_length :: "nat \<Rightarrow> nat" where
  "bit_length n = (if n = 0 then 0 else Suc (bit_length (n div 2)))"

text \<open>The exponent \<open>e\<close> of a positive real \<open>a\<close>: \<open>2 ^ e \<le> a < 2 ^ (e + 1)\<close>.\<close>

definition binary_exponent :: "real \<Rightarrow> int" where
  "binary_exponent a =
    (if 1 \<le> a then int (bit_length (nat \<lfloor>a\<rfloor>)) - 1
     else - int (bit_length (nat (\<lceil>1 / a\<rceil> - 1))))"

definition scale2 :: "real \<Rightarrow> int \<Rightarrow> real" where
  "scale2 a k = (if 0 \<le> k then a * 2 ^ nat k else a / 2 ^ nat (- k))"

definition round_half_even :: "real \<Rightarrow> int" where
  "round_half_even s =
    (if s - of_int \<lfloor>s\<rfloor> < 1 / 2 then \<lfloor>s\<rfloor>
     else if 1 / 2 < s - of_int \<lfloor>s\<rfloor> then \<lfloor>s\<rfloor> + 1
     else if even \<lfloor>s\<rfloor> then \<lfloor>s\<rfloor> else \<lfloor>s\<rfloor> + 1)"

definition to_double :: "real \<Rightarrow> real" where
  "to_double q =
    (if q = 0 then 0
     else sgn q *
       scale2 (of_int (round_half_even (scale2 \<bar>q\<bar> (52 - binary_exponent \<bar>q\<bar>))))
         (binary_exponent \<bar>q\<bar> - 52))"

definition binary64 :: "real js_arithmetic" where
  "binary64 =
    \<lparr>num_literal = to_double,
     num_add = (\<lambda>a b. to_double (a + b)),
     num_mul = (\<lambda>a b. to_double (a * b))\<rparr>"

text \<open>A configuration for the closed instances: the local server of the application
  on \<open>127.0.0.1:41050\<close>, the public site on \<open>wordpress.com\<close>.\<close>

definition example_config :: config where
  "example_config =
    \<lparr>server_host = ''127.0.0.1'', server_url = ''http://127.0.0.1:41050'',
     wordpress_host = ''wordpress.com''\<rparr>"

text \<open>A request of a user without admin rights, and the same request of an admin.\<close>

definition example_request :: info where
  "example_request =
    \<lparr>siteId = 7, origin = ''https://example.wordpress.com'',
     editorUrl = ''https://example.wordpress.com/wp-admin/post.php?post=7'',
     isAdmin = False\<rparr>"

definition admin_request :: info where
  "admin_request = example_request\<lparr>isAdmin := True\<rparr>"

text \<open>Collaborators that do not throw, with the user clicking button \<open>n\<close>.\<close>

definition user_clicks :: "nat \<Rightarrow> env" where
  "user_clicks n =
    \<lparr>showMessageBox = Inr n, showMySites_throws = False, saveSetting_throws = False\<rparr>"

text \<open>A run of the emitter: the events are emitted one after the other, each with its
  own event object.\<close>

definition ipc_emit_all ::
    "url_module \<Rightarrow> env \<Rightarrow> (nat \<times> ipc_event) list \<Rightarrow> world \<Rightarrow> world" where
  "ipc_emit_all lib en es w = foldl (\<lambda>w' ee. snd (ipc_emit lib en (fst ee) (snd ee) w')) w es"

text \<open>The world once the module has been loaded, and the three events of one
  Enable-SSO-and-Continue flow: the request of an admin (who then clicks the first
  button), the response that SSO is enabled, and the response to the site refresh.\<close>

definition loaded :: world where
  "loaded = snd (module_exports initial_world)"

definition sso_flow :: "(nat \<times> ipc_event) list" where
  "sso_flow =
    [(1, Ev_Cannot_Open_Editor admin_request),
     (2, Ev_Enable_Site_Option_Response ''success''),
     (3, Ev_Request_Site_Response)]"

section \<open>Properties\<close>

declare bit_length.simps [simp del]

lemmas double_eval =
  to_double_def scale2_def round_half_even_def binary_exponent_def bit_length.simps

subsection \<open>Evaluating the model of the \<^verbatim>\<open>url\<close> module\<close>

lemmas url_eval =
  parseURL_def split_scheme_def strip_def c0_or_space_def is_scheme_char_def
  is_alpha_def is_digit_def lower_alpha_def upper_alpha_def digits_def to_lower_def
  is_slash_def with_authority_def without_authority_def parse_authority_def
  parse_host_def parse_port_def forbidden_host_char_def split_first_def split_last_def
  path_of_def search_of_def hash_of_def path_end_def authority_end_def default_port_def
  number_of_def digit_value_def decimal_def

lemma node_url_simps:
  "new_URL node_url = parseURL"
  "format node_url = formatURL"
  "searchParams_get node_url = searchParamsGet"
  by (simp_all add: node_url_def)

lemma parse_server_host:
  "parseURL ''http://127.0.0.1'' =
    Some \<lparr>protocol = ''http:'', username = [], password = [], hostname = ''127.0.0.1'',
          port = [], pathname = ''/'', search = [], hash = []\<rparr>"
  by (simp add: url_eval)

lemma parse_localhost:
  "parseURL ''http://localhost'' =
    Some \<lparr>protocol = ''http:'', username = [], password = [], hostname = ''localhost'',
          port = [], pathname = ''/'', search = [], hash = []\<rparr>"
  by (simp add: url_eval)

lemma parse_calypso_localhost:
  "parseURL ''http://calypso.localhost:3000/*'' =
    Some \<lparr>protocol = ''http:'', username = [], password = [],
          hostname = ''calypso.localhost'', port = ''3000'', pathname = ''/*'',
          search = [], hash = []\<rparr>"
  by (simp add: url_eval)

lemma parse_public_api:
  "parseURL ''https:/public-api.wordpress.com'' =
    Some \<lparr>protocol = ''https:'', username = [], password = [],
          hostname = ''public-api.wordpress.com'', port = [], pathname = ''/'',
          search = [], hash = []\<rparr>"
  by (simp add: url_eval)

lemma parse_wp_login:
  "parseURL ''https://wordpress.com/wp-login.php'' =
    Some \<lparr>protocol = ''https:'', username = [], password = [],
          hostname = ''wordpress.com'', port = [], pathname = ''/wp-login.php'',
          search = [], hash = []\<rparr>"
  by (simp add: url_eval)

lemma parse_loopback_any:
  "parseURL ''http://127.0.0.1:41050/*'' =
    Some \<lparr>protocol = ''http:'', username = [], password = [], hostname = ''127.0.0.1'',
          port = ''41050'', pathname = ''/*'', search = [], hash = []\<rparr>"
  by (simp add: url_eval)

lemma parse_server_url:
  "parseURL ''http://127.0.0.1:41050'' =
    Some \<lparr>protocol = ''http:'', username = [], password = [], hostname = ''127.0.0.1'',
          port = ''41050'', pathname = ''/'', search = [], hash = []\<rparr>"
  by (simp add: url_eval)

lemma parse_connect:
  "parseURL ''https://public-api.wordpress.com/connect/'' =
    Some \<lparr>protocol = ''https:'', username = [], password = [],
          hostname = ''public-api.wordpress.com'', port = [], pathname = ''/connect/'',
          search = [], hash = []\<rparr>"
  by (simp add: url_eval)

lemma parse_evil:
  "parseURL ''http://evil.example/x'' =
    Some \<lparr>protocol = ''http:'', username = [], password = [], hostname = ''evil.example'',
          port = [], pathname = ''/x'', search = [], hash = []\<rparr>"
  by (simp add: url_eval)

lemma parse_mailto:
  "parseURL ''mailto:someone@example.com'' =
    Some \<lparr>protocol = ''mailto:'', username = [], password = [], hostname = [],
          port = [], pathname = ''someone@example.com'', search = [], hash = []\<rparr>"
  by (simp add: url_eval)

lemma parse_file:
  "parseURL ''file:///etc/passwd'' =
    Some \<lparr>protocol = ''file:'', username = [], password = [], hostname = [],
          port = [], pathname = ''/etc/passwd'', search = [], hash = []\<rparr>"
  by (simp add: url_eval)

lemma parse_not_a_url: "parseURL ''not a url'' = None"
  by (simp add: url_eval)

lemma parse_empty: "parseURL [] = None"
  by (simp add: url_eval)

lemma parse_relative: "parseURL ''/wp-admin/post.php?post=7'' = None"
  by (simp add: url_eval)

lemmas parse_policy =
  parse_server_host parse_localhost parse_calypso_localhost parse_public_api
  parse_wp_login parse_loopback_any parse_server_url parse_connect

lemma always_open_in_app_parses:
  "\<forall>e\<in>set (ALWAYS_OPEN_IN_APP example_config). new_URL node_url e \<noteq> None"
  by (simp add: ALWAYS_OPEN_IN_APP_def example_config_def node_url_simps parse_policy)

lemma dont_open_in_browser_parses:
  "\<forall>e\<in>set (DONT_OPEN_IN_BROWSER example_config). new_URL node_url e \<noteq> None"
  by (simp add: DONT_OPEN_IN_BROWSER_def example_config_def node_url_simps parse_policy)

subsection \<open>The policy loop\<close>

lemma matches_entry_parsed:
  assumes "\<forall>e\<in>set entries. new_URL lib e \<noteq> None"
  shows "matches_entry lib p entries =
    Inr (\<exists>e\<in>set entries. \<exists>q. new_URL lib e = Some q \<and> domainAndPathSame p q)"
  using assms by (induction entries) auto

lemma matches_entry_cong:
  assumes "hostname a = hostname b" and "pathname a = pathname b"
  shows "matches_entry lib a entries = matches_entry lib b entries"
  using assms by (induction entries) (auto simp: domainAndPathSame_def split: option.splits)

subsection \<open>The classifier and the \<open>will-navigate\<close> handler\<close>

lemmas io_defs =
  bind_io_def seq_io_def lift_def ret_def throw_def try_catch_def log_info_def
  log_error_def shell_openExternal_def preventDefault_def webContents_send_def
  ipc_on_def ipc_removeAllListeners_def

text \<open>
  Claim C4. \<open>domainAndPathSame a b\<close> holds exactly when the host names are equal and
  the paths are equal or the path of \<open>b\<close> is \<open>/*\<close>. The wildcard counts on the second
  argument only: for every host \<open>h\<close>, a first URL with path \<open>/*\<close> does not match a
  second one with path \<open>/foo\<close>, and in the other order they match.
\<close>

theorem domainAndPathSame_wildcard_on_second_only:
  "(domainAndPathSame a b \<longleftrightarrow>
      hostname a = hostname b \<and> (pathname a = pathname b \<or> pathname b = ''/*'')) \<and>
   \<not> domainAndPathSame (c\<lparr>hostname := h, pathname := ''/*''\<rparr>)
        (d\<lparr>hostname := h, pathname := ''/foo''\<rparr>) \<and>
   domainAndPathSame (d\<lparr>hostname := h, pathname := ''/foo''\<rparr>)
     (c\<lparr>hostname := h, pathname := ''/*''\<rparr>)"
  by (simp add: domainAndPathSame_def)

text \<open>
  Claim C1, as the code has it. When the string parses with protocol \<open>http:\<close> or
  \<open>https:\<close>, \<open>isValidBrowserUrl\<close> returns the string itself (truthy, unless it is
  empty); when it parses with another protocol, it returns \<open>false\<close>; when it does not
  parse, the \<open>TypeError\<close> of \<^verbatim>\<open>new URL\<close> leaves the function.
\<close>

theorem isValidBrowserUrl_result:
  "(new_URL lib u = Some p \<and> (protocol p = ''http:'' \<or> protocol p = ''https:'') \<longrightarrow>
      isValidBrowserUrl lib u = Inr (JString u) \<and> (truthy (JString u) \<longleftrightarrow> u \<noteq> [])) \<and>
   (new_URL lib u = Some p \<and> protocol p \<noteq> ''http:'' \<and> protocol p \<noteq> ''https:'' \<longrightarrow>
      isValidBrowserUrl lib u = Inr (JBool False)) \<and>
   (new_URL lib u = None \<longrightarrow> isValidBrowserUrl lib u = Inl TypeError)"
  by (simp add: isValidBrowserUrl_def)

theorem isValidBrowserUrl_result_witness:
  "isValidBrowserUrl node_url ''https://wordpress.com/wp-login.php'' =
     Inr (JString ''https://wordpress.com/wp-login.php'') \<and>
   truthy (JString ''https://wordpress.com/wp-login.php'') \<and>
   isValidBrowserUrl node_url ''file:///etc/passwd'' = Inr (JBool False) \<and>
   isValidBrowserUrl node_url ''/wp-admin/post.php?post=7'' = Inl TypeError"
  using isValidBrowserUrl_result [of node_url "''https://wordpress.com/wp-login.php''"
      "\<lparr>protocol = ''https:'', username = [], password = [],
          hostname = ''wordpress.com'', port = [], pathname = ''/wp-login.php'',
          search = [], hash = []\<rparr>"]
    isValidBrowserUrl_result [of node_url "''file:///etc/passwd''"
      "\<lparr>protocol = ''file:'', username = [], password = [], hostname = [],
          port = [], pathname = ''/etc/passwd'', search = [], hash = []\<rparr>"]
    isValidBrowserUrl_result [of node_url "''/wp-admin/post.php?post=7''"]
  by (simp add: node_url_simps parse_wp_login parse_file parse_relative)

text \<open>Claim C1 as stated asks for \<open>false\<close> on a string that does not parse. On
  \<open>not a url\<close> the function throws.\<close>

theorem isValidBrowserUrl_throws_on_malformed:
  "new_URL node_url ''not a url'' = None \<and>
   isValidBrowserUrl node_url ''not a url'' = Inl TypeError \<and>
   isValidBrowserUrl node_url ''not a url'' \<noteq> Inr (JBool False)"
  by (simp add: isValidBrowserUrl_def node_url_simps parse_not_a_url)

lemma openInBrowser_valid:
  assumes "isValidBrowserUrl lib u = Inr v" and "truthy v"
  shows "openInBrowser lib event u w =
    (Inr (), w\<lparr>logged := logged w @ [(Log_Info, ''Using system default handler for URL: '' @ u)],
               opened := opened w @ [u],
               prevented := prevented w @ [event]\<rparr>)"
  using assms by (simp add: openInBrowser_def io_defs)

lemma openInBrowser_invalid:
  assumes "isValidBrowserUrl lib u = Inr v" and "\<not> truthy v"
  shows "openInBrowser lib event u w = (Inr (), w\<lparr>prevented := prevented w @ [event]\<rparr>)"
  using assms by (simp add: openInBrowser_def io_defs)

lemma openInBrowser_throws:
  assumes "isValidBrowserUrl lib u = Inl e"
  shows "openInBrowser lib event u w = (Inl e, w)"
  using assms by (simp add: openInBrowser_def io_defs)

text \<open>
  Claim C2, as the code has it. When \<open>isValidBrowserUrl\<close> returns a truthy value,
  \<open>openInBrowser\<close> logs, opens the URL once and calls \<open>preventDefault\<close>; when it returns
  a falsy value, \<open>preventDefault\<close> is the only effect; it returns a value on every string
  that parses. On a string that does not parse the \<open>TypeError\<close> leaves \<open>openInBrowser\<close>
  with the world as it was: \<open>preventDefault\<close> has not been called.
\<close>

theorem openInBrowser_effects:
  "(isValidBrowserUrl lib u = Inr v \<and> truthy v \<longrightarrow>
      openInBrowser lib event u w =
        (Inr (), w\<lparr>logged := logged w @
                       [(Log_Info, ''Using system default handler for URL: '' @ u)],
                   opened := opened w @ [u],
                   prevented := prevented w @ [event]\<rparr>)) \<and>
   (isValidBrowserUrl lib u = Inr v \<and> \<not> truthy v \<longrightarrow>
      openInBrowser lib event u w = (Inr (), w\<lparr>prevented := prevented w @ [event]\<rparr>)) \<and>
   (new_URL lib u \<noteq> None \<longrightarrow> (\<exists>v'. isValidBrowserUrl lib u = Inr v')) \<and>
   (new_URL lib u = None \<longrightarrow> openInBrowser lib event u w = (Inl TypeError, w))"
  by (auto simp: openInBrowser_valid openInBrowser_invalid openInBrowser_throws
      isValidBrowserUrl_def)

lemma valid_wp_login:
  "isValidBrowserUrl node_url ''https://wordpress.com/wp-login.php'' =
     Inr (JString ''https://wordpress.com/wp-login.php'')"
  by (simp add: isValidBrowserUrl_def node_url_simps parse_wp_login)

lemma valid_evil:
  "isValidBrowserUrl node_url ''http://evil.example/x'' = Inr (JString ''http://evil.example/x'')"
  by (simp add: isValidBrowserUrl_def node_url_simps parse_evil)

lemma invalid_mailto:
  "isValidBrowserUrl node_url ''mailto:someone@example.com'' = Inr (JBool False)"
  by (simp add: isValidBrowserUrl_def node_url_simps parse_mailto)

theorem openInBrowser_effects_witness:
  "openInBrowser node_url 1 ''http://evil.example/x'' initial_world =
     (Inr (), initial_world
        \<lparr>logged := [(Log_Info, ''Using system default handler for URL: http://evil.example/x'')],
         opened := [''http://evil.example/x''],
         prevented := [1]\<rparr>) \<and>
   openInBrowser node_url 1 ''mailto:someone@example.com'' initial_world =
     (Inr (), initial_world\<lparr>prevented := [1]\<rparr>) \<and>
   openInBrowser node_url 1 ''/wp-admin/post.php?post=7'' initial_world =
     (Inl TypeError, initial_world)"
  using
    openInBrowser_effects [of node_url "''http://evil.example/x''"
      "JString ''http://evil.example/x''" 1 initial_world]
    openInBrowser_effects [of node_url "''mailto:someone@example.com''" "JBool False" 1
      initial_world]
    openInBrowser_effects [of node_url "''/wp-admin/post.php?post=7''" _ 1 initial_world]
  by (simp add: valid_evil invalid_mailto node_url_simps parse_relative initial_world_def)

text \<open>Claim C2 as stated asks for \<open>preventDefault\<close> on a malformed URL too. On
  \<open>not a url\<close> no event is prevented.\<close>

theorem openInBrowser_malformed_not_prevented:
  "openInBrowser node_url 1 ''not a url'' initial_world = (Inl TypeError, initial_world) \<and>
   prevented (snd (openInBrowser node_url 1 ''not a url'' initial_world)) = []"
  by (simp add: openInBrowser_throws isValidBrowserUrl_def node_url_simps parse_not_a_url
      initial_world_def)

lemma parsed_is_valid:
  assumes "new_URL lib u = Some p" and "new_URL lib [] = None"
  shows "isValidBrowserUrl lib u =
    Inr (if protocol p = ''http:'' \<or> protocol p = ''https:'' then JString u else JBool False)"
    and "u \<noteq> []"
  using assms by (auto simp: isValidBrowserUrl_def)

lemma openInBrowser_parsed:
  assumes "new_URL lib u = Some p" and "new_URL lib [] = None"
  shows "openInBrowser lib event u w =
    (if protocol p = ''http:'' \<or> protocol p = ''https:''
     then (Inr (), w\<lparr>logged := logged w @
                         [(Log_Info, ''Using system default handler for URL: '' @ u)],
                     opened := opened w @ [u],
                     prevented := prevented w @ [event]\<rparr>)
     else (Inr (), w\<lparr>prevented := prevented w @ [event]\<rparr>))"
  using parsed_is_valid [OF assms]
  by (simp add: openInBrowser_valid openInBrowser_invalid)

text \<open>
  Claim C3. The destination parses to \<open>p\<close>, and so does every entry of the
  Always-Open-In-App list; the parser rejects the empty string. If some entry matches
  the host and path of \<open>p\<close>, the \<open>will-navigate\<close> handler leaves the world as it is: no
  \<open>preventDefault\<close>, nothing opened. If none matches, \<open>preventDefault\<close> is called on the
  event, and the URL is handed to \<open>shell.openExternal\<close> once when its protocol is
  \<open>http:\<close> or \<open>https:\<close> and not at all otherwise.
\<close>

theorem will_navigate_routes:
  assumes "new_URL lib u = Some p"
    and "\<forall>e\<in>set (ALWAYS_OPEN_IN_APP cfg). new_URL lib e \<noteq> None"
    and "new_URL lib [] = None"
  shows "will_navigate lib cfg event u w =
    (if \<exists>e\<in>set (ALWAYS_OPEN_IN_APP cfg). \<exists>q. new_URL lib e = Some q \<and> domainAndPathSame p q
     then (Inr (), w)
     else if protocol p = ''http:'' \<or> protocol p = ''https:''
     then (Inr (), w\<lparr>logged := logged w @
                         [(Log_Info, ''Using system default handler for URL: '' @ u)],
                     opened := opened w @ [u],
                     prevented := prevented w @ [event]\<rparr>)
     else (Inr (), w\<lparr>prevented := prevented w @ [event]\<rparr>))"
proof -
  have scan: "matches_entry lib p (ALWAYS_OPEN_IN_APP cfg) =
      Inr (\<exists>e\<in>set (ALWAYS_OPEN_IN_APP cfg). \<exists>q. new_URL lib e = Some q \<and> domainAndPathSame p q)"
    using assms(2) by (rule matches_entry_parsed)
  have "will_navigate lib cfg event u w =
      (if \<exists>e\<in>set (ALWAYS_OPEN_IN_APP cfg). \<exists>q. new_URL lib e = Some q \<and> domainAndPathSame p q
       then (Inr (), w) else openInBrowser lib event u w)"
    by (auto simp add: will_navigate_def construct_URL_def assms(1) scan io_defs)
  then show ?thesis
    by (simp only: openInBrowser_parsed [OF assms(1) assms(3)])
qed

theorem will_navigate_routes_witness:
  "will_navigate node_url example_config 1 ''https://wordpress.com/wp-login.php'' initial_world =
     (Inr (), initial_world) \<and>
   will_navigate node_url example_config 1 ''http://evil.example/x'' initial_world =
     (Inr (), initial_world
        \<lparr>logged := [(Log_Info, ''Using system default handler for URL: http://evil.example/x'')],
         opened := [''http://evil.example/x''],
         prevented := [1]\<rparr>) \<and>
   will_navigate node_url example_config 1 ''mailto:someone@example.com'' initial_world =
     (Inr (), initial_world\<lparr>prevented := [1]\<rparr>)"
proof -
  have e: "new_URL node_url [] = None"
    by (simp add: node_url_simps parse_empty)
  have a: "new_URL node_url ''https://wordpress.com/wp-login.php'' =
      Some \<lparr>protocol = ''https:'', username = [], password = [],
          hostname = ''wordpress.com'', port = [], pathname = ''/wp-login.php'',
          search = [], hash = []\<rparr>"
    by (simp add: node_url_simps parse_wp_login)
  have b: "new_URL node_url ''http://evil.example/x'' =
      Some \<lparr>protocol = ''http:'', username = [], password = [], hostname = ''evil.example'',
          port = [], pathname = ''/x'', search = [], hash = []\<rparr>"
    by (simp add: node_url_simps parse_evil)
  have c: "new_URL node_url ''mailto:someone@example.com'' =
      Some \<lparr>protocol = ''mailto:'', username = [], password = [], hostname = [],
          port = [], pathname = ''someone@example.com'', search = [], hash = []\<rparr>"
    by (simp add: node_url_simps parse_mailto)
  show ?thesis
    using will_navigate_routes [OF a always_open_in_app_parses e, of 1 initial_world]
      will_navigate_routes [OF b always_open_in_app_parses e, of 1 initial_world]
      will_navigate_routes [OF c always_open_in_app_parses e, of 1 initial_world]
    by (simp add: ALWAYS_OPEN_IN_APP_def example_config_def node_url_simps parse_policy
        domainAndPathSame_def initial_world_def)
qed

subsection \<open>The \<open>new-window\<close> handler\<close>

lemma new_window_scanned:
  assumes "new_URL lib u = Some p"
    and "\<forall>e\<in>set (DONT_OPEN_IN_BROWSER cfg). new_URL lib e \<noteq> None"
  shows "new_window ar lib cfg event u opts w =
    (if \<exists>e\<in>set (DONT_OPEN_IN_BROWSER cfg). \<exists>q. new_URL lib e = Some q \<and> domainAndPathSame p q
     then (Inr (opts\<lparr>opt_x := num_add ar (opt_x opts) (OFFSET_NEW_WINDOW ar),
                     opt_y := num_add ar (opt_y opts) (OFFSET_NEW_WINDOW ar),
                     opt_width := num_mul ar (opt_width opts) (SCALE_NEW_WINDOW_FACTOR ar),
                     opt_height := num_mul ar (opt_height opts) (SCALE_NEW_WINDOW_FACTOR ar)\<rparr>),
           w\<lparr>logged := logged w @ [(Log_Info, ''Open in new window for '' @ u)]\<rparr>)
     else bind_io (replaceInternalCalypsoUrl cfg p) (\<lambda>replaced.
          seq_io (openInBrowser lib event (format lib replaced)) (ret opts)) w)"
proof -
  have scan: "matches_entry lib p (DONT_OPEN_IN_BROWSER cfg) =
      Inr (\<exists>e\<in>set (DONT_OPEN_IN_BROWSER cfg). \<exists>q. new_URL lib e = Some q \<and> domainAndPathSame p q)"
    using assms(2) by (rule matches_entry_parsed)
  show ?thesis
    by (auto simp add: new_window_def construct_URL_def assms(1) scan bind_io_def seq_io_def
        lift_def ret_def log_info_def)
qed

text \<open>
  Claim C6. The URL of a \<open>new-window\<close> event parses to \<open>p\<close>, every entry of the
  Dont-Open-In-Browser list parses, and some entry matches the host and path of \<open>p\<close>.
  Then the handler returns the options with \<open>x + 50\<close>, \<open>y + 50\<close>, \<open>width * 0.9\<close> and
  \<open>height * 0.9\<close> in the place of \<open>x\<close>, \<open>y\<close>, \<open>width\<close> and \<open>height\<close>, the sums and
  products being those of the arithmetic of the runtime, and its only effect is a line
  of the log: nothing is opened in the browser and \<open>preventDefault\<close> is not called.
\<close>

theorem new_window_in_app:
  assumes "new_URL lib u = Some p"
    and "\<forall>e\<in>set (DONT_OPEN_IN_BROWSER cfg). new_URL lib e \<noteq> None"
    and "\<exists>e\<in>set (DONT_OPEN_IN_BROWSER cfg). \<exists>q. new_URL lib e = Some q \<and> domainAndPathSame p q"
  shows "new_window ar lib cfg event u opts w =
    (Inr \<lparr>opt_x = num_add ar (opt_x opts) (num_literal ar 50),
          opt_y = num_add ar (opt_y opts) (num_literal ar 50),
          opt_width = num_mul ar (opt_width opts) (num_literal ar 0.9),
          opt_height = num_mul ar (opt_height opts) (num_literal ar 0.9)\<rparr>,
     w\<lparr>logged := logged w @ [(Log_Info, ''Open in new window for '' @ u)]\<rparr>)"
  using assms(3)
  by (simp add: new_window_scanned [OF assms(1) assms(2)] OFFSET_NEW_WINDOW_def
      SCALE_NEW_WINDOW_FACTOR_def)

lemma parse_connect_query:
  "parseURL ''https://public-api.wordpress.com/connect/?action=verify'' =
    Some \<lparr>protocol = ''https:'', username = [], password = [],
          hostname = ''public-api.wordpress.com'', port = [], pathname = ''/connect/'',
          search = ''?action=verify'', hash = []\<rparr>"
  by (simp add: url_eval)

text \<open>In doubles, a window of 1024 by 13 at (100, 80) becomes one of
  921.6000000000000227... by 11.700000000000001065... at (150, 130): the products are
  rounded, and the factor is the double nearest to 0.9.\<close>

lemma double_literals:
  "to_double 50 = 50"
  "to_double 0.9 = 8106479329266893 / 9007199254740992"
  by (simp_all add: double_eval)

lemma double_sums:
  "to_double (100 + 50) = 150"
  "to_double (80 + 50) = 130"
  by (simp_all add: double_eval)

lemma double_products:
  "to_double (1024 * (8106479329266893 / 9007199254740992)) =
     8106479329266893 / 8796093022208"
  "to_double (13 * (8106479329266893 / 9007199254740992)) =
     6586514455029351 / 562949953421312"
  by (simp_all add: double_eval)

theorem new_window_in_app_witness:
  "new_window binary64 node_url example_config 1
     ''https://public-api.wordpress.com/connect/?action=verify''
     \<lparr>opt_x = 100, opt_y = 80, opt_width = 1024, opt_height = 13\<rparr> initial_world =
   (Inr \<lparr>opt_x = 150, opt_y = 130,
         opt_width = 8106479329266893 / 8796093022208,
         opt_height = 6586514455029351 / 562949953421312\<rparr>,
    initial_world
      \<lparr>logged := [(Log_Info, ''Open in new window for https://public-api.wordpress.com/connect/?action=verify'')]\<rparr>)"
proof -
  have a: "new_URL node_url ''https://public-api.wordpress.com/connect/?action=verify'' =
      Some \<lparr>protocol = ''https:'', username = [], password = [],
          hostname = ''public-api.wordpress.com'', port = [], pathname = ''/connect/'',
          search = ''?action=verify'', hash = []\<rparr>"
    by (simp add: node_url_simps parse_connect_query)
  have m: "\<exists>e\<in>set (DONT_OPEN_IN_BROWSER example_config). \<exists>q. new_URL node_url e = Some q \<and>
      domainAndPathSame \<lparr>protocol = ''https:'', username = [], password = [],
          hostname = ''public-api.wordpress.com'', port = [], pathname = ''/connect/'',
          search = ''?action=verify'', hash = []\<rparr> q"
    by (simp add: DONT_OPEN_IN_BROWSER_def example_config_def node_url_simps parse_policy
        domainAndPathSame_def)
  have n: "num_add binary64 100 (num_literal binary64 50) = 150"
    "num_add binary64 80 (num_literal binary64 50) = 130"
    "num_mul binary64 1024 (num_literal binary64 0.9) = 8106479329266893 / 8796093022208"
    "num_mul binary64 13 (num_literal binary64 0.9) = 6586514455029351 / 562949953421312"
    by (simp_all only: binary64_def js_arithmetic.simps double_literals double_sums
        double_products)
  show ?thesis
    using new_window_in_app [OF a dont_open_in_browser_parses m,
        where ar = binary64 and event = 1 and w = initial_world
          and opts = "\<lparr>opt_x = 100, opt_y = 80, opt_width = 1024, opt_height = 13\<rparr>"]
    by (simp add: n initial_world_def)
qed

text \<open>
  Claim C7. The URL of a \<open>new-window\<close> event parses to \<open>p\<close>, every entry of the
  Dont-Open-In-Browser list parses and none matches. \<open>replaceInternalCalypsoUrl\<close>
  returns \<open>p\<close> with the host name set to the configured public host and the port
  cleared when the host name of \<open>p\<close> is the configured server host, and \<open>p\<close> itself
  otherwise. The handler formats that URL, hands the string to \<open>openInBrowser\<close> and
  returns the options as they were.
\<close>

theorem new_window_external:
  assumes "new_URL lib u = Some p"
    and "\<forall>e\<in>set (DONT_OPEN_IN_BROWSER cfg). new_URL lib e \<noteq> None"
    and "\<not> (\<exists>e\<in>set (DONT_OPEN_IN_BROWSER cfg). \<exists>q. new_URL lib e = Some q \<and> domainAndPathSame p q)"
  shows "fst (replaceInternalCalypsoUrl cfg p w) =
      Inr (if hostname p = server_host cfg
           then p\<lparr>hostname := wordpress_host cfg, port := []\<rparr> else p) \<and>
    new_window ar lib cfg event u opts w =
      (case openInBrowser lib event
              (format lib (if hostname p = server_host cfg
                           then p\<lparr>hostname := wordpress_host cfg, port := []\<rparr> else p))
              (if hostname p = server_host cfg
               then w\<lparr>logged := logged w @
                       [(Log_Info, ''Replacing internal url with public url'')]\<rparr>
               else w) of
         (Inl e, w') \<Rightarrow> (Inl e, w')
       | (Inr done, w') \<Rightarrow> (Inr opts, w'))"
proof -
  have "new_window ar lib cfg event u opts w =
      bind_io (replaceInternalCalypsoUrl cfg p) (\<lambda>replaced.
        seq_io (openInBrowser lib event (format lib replaced)) (ret opts)) w"
    using new_window_scanned [OF assms(1) assms(2), of ar event opts w]
    by (simp only: assms(3) if_False)
  then show ?thesis
    by (simp add: replaceInternalCalypsoUrl_def bind_io_def seq_io_def ret_def log_info_def
        split: prod.splits sum.splits)
qed

lemma parse_internal_post:
  "parseURL ''http://127.0.0.1:41050/post?x=1'' =
    Some \<lparr>protocol = ''http:'', username = [], password = [], hostname = ''127.0.0.1'',
          port = ''41050'', pathname = ''/post'', search = ''?x=1'', hash = []\<rparr>"
  by (simp add: url_eval)

lemma parse_public_post:
  "parseURL ''http://wordpress.com/post?x=1'' =
    Some \<lparr>protocol = ''http:'', username = [], password = [], hostname = ''wordpress.com'',
          port = [], pathname = ''/post'', search = ''?x=1'', hash = []\<rparr>"
  by (simp add: url_eval)

lemma valid_public_post:
  "isValidBrowserUrl node_url ''http://wordpress.com/post?x=1'' =
     Inr (JString ''http://wordpress.com/post?x=1'')"
  by (simp add: isValidBrowserUrl_def node_url_simps parse_public_post)

theorem new_window_external_witness:
  "new_window binary64 node_url example_config 1 ''http://127.0.0.1:41050/post?x=1''
     \<lparr>opt_x = 100, opt_y = 80, opt_width = 1000, opt_height = 800\<rparr> initial_world =
   (Inr \<lparr>opt_x = 100, opt_y = 80, opt_width = 1000, opt_height = 800\<rparr>,
    initial_world
      \<lparr>logged := [(Log_Info, ''Replacing internal url with public url''),
                  (Log_Info, ''Using system default handler for URL: http://wordpress.com/post?x=1'')],
       opened := [''http://wordpress.com/post?x=1''],
       prevented := [1]\<rparr>) \<and>
   new_window binary64 node_url example_config 1 ''http://evil.example/x''
     \<lparr>opt_x = 100, opt_y = 80, opt_width = 1000, opt_height = 800\<rparr> initial_world =
   (Inr \<lparr>opt_x = 100, opt_y = 80, opt_width = 1000, opt_height = 800\<rparr>,
    initial_world
      \<lparr>logged := [(Log_Info, ''Using system default handler for URL: http://evil.example/x'')],
       opened := [''http://evil.example/x''],
       prevented := [1]\<rparr>)"
proof -
  have a: "new_URL node_url ''http://127.0.0.1:41050/post?x=1'' =
      Some \<lparr>protocol = ''http:'', username = [], password = [], hostname = ''127.0.0.1'',
          port = ''41050'', pathname = ''/post'', search = ''?x=1'', hash = []\<rparr>"
    by (simp add: node_url_simps parse_internal_post)
  have b: "new_URL node_url ''http://evil.example/x'' =
      Some \<lparr>protocol = ''http:'', username = [], password = [], hostname = ''evil.example'',
          port = [], pathname = ''/x'', search = [], hash = []\<rparr>"
    by (simp add: node_url_simps parse_evil)
  have na: "\<not> (\<exists>e\<in>set (DONT_OPEN_IN_BROWSER example_config). \<exists>q. new_URL node_url e = Some q \<and>
      domainAndPathSame \<lparr>protocol = ''http:'', username = [], password = [],
          hostname = ''127.0.0.1'', port = ''41050'', pathname = ''/post'', search = ''?x=1'',
          hash = []\<rparr> q)"
    by (simp add: DONT_OPEN_IN_BROWSER_def example_config_def node_url_simps parse_policy
        domainAndPathSame_def)
  have nb: "\<not> (\<exists>e\<in>set (DONT_OPEN_IN_BROWSER example_config). \<exists>q. new_URL node_url e = Some q \<and>
      domainAndPathSame \<lparr>protocol = ''http:'', username = [], password = [],
          hostname = ''evil.example'', port = [], pathname = ''/x'', search = [],
          hash = []\<rparr> q)"
    by (simp add: DONT_OPEN_IN_BROWSER_def example_config_def node_url_simps parse_policy
        domainAndPathSame_def)
  show ?thesis
    using new_window_external [OF a dont_open_in_browser_parses na,
        where ar = binary64 and event = 1 and w = initial_world
          and opts = "\<lparr>opt_x = 100, opt_y = 80, opt_width = 1000, opt_height = 800\<rparr>"]
      new_window_external [OF b dont_open_in_browser_parses nb,
        where ar = binary64 and event = 1 and w = initial_world
          and opts = "\<lparr>opt_x = 100, opt_y = 80, opt_width = 1000, opt_height = 800\<rparr>"]
    by (simp add: example_config_def node_url_simps formatURL_def
        openInBrowser_valid [OF valid_public_post] openInBrowser_valid [OF valid_evil]
        initial_world_def)
qed


subsection \<open>What the classification depends on\<close>

lemma will_navigate_by_loop:
  assumes "new_URL lib u = Some a"
  shows "will_navigate lib cfg event u w =
    (case matches_entry lib a (ALWAYS_OPEN_IN_APP cfg) of
       Inl err \<Rightarrow> (Inl err, w)
     | Inr matched \<Rightarrow> if matched then (Inr (), w) else openInBrowser lib event u w)"
  using assms
  by (simp add: will_navigate_def construct_URL_def bind_io_def lift_def ret_def
      split: sum.splits)

lemma new_window_by_loop:
  assumes "new_URL lib u = Some a"
  shows "new_window ar lib cfg event u opts w =
    (case matches_entry lib a (DONT_OPEN_IN_BROWSER cfg) of
       Inl err \<Rightarrow> (Inl err, w)
     | Inr matched \<Rightarrow>
         if matched
         then (Inr (opts\<lparr>opt_x := num_add ar (opt_x opts) (OFFSET_NEW_WINDOW ar),
                         opt_y := num_add ar (opt_y opts) (OFFSET_NEW_WINDOW ar),
                         opt_width := num_mul ar (opt_width opts) (SCALE_NEW_WINDOW_FACTOR ar),
                         opt_height := num_mul ar (opt_height opts) (SCALE_NEW_WINDOW_FACTOR ar)\<rparr>),
               w\<lparr>logged := logged w @ [(Log_Info, ''Open in new window for '' @ u)]\<rparr>)
         else bind_io (replaceInternalCalypsoUrl cfg a) (\<lambda>replaced.
              seq_io (openInBrowser lib event (format lib replaced)) (ret opts)) w)"
  using assms
  by (simp add: new_window_def construct_URL_def bind_io_def seq_io_def lift_def ret_def
      log_info_def split: sum.splits)

text \<open>
  Claim C10, as the code has it. Two parsed URLs \<open>a\<close> and \<open>b\<close> with the same host
  name and the same path name, whatever their scheme, port, query and fragment, compare
  alike with every policy entry, and the loop over a policy list gives the same answer
  for both (the same match, or the same exception on an entry that does not parse). So
  a handler run on a URL that parses to \<open>a\<close> takes the branch the loop chooses for \<open>b\<close>:
  \<open>will-navigate\<close> leaves the event alone or goes on to \<open>openInBrowser\<close>, \<open>new-window\<close>
  adjusts the options or goes on to the external browser. What \<open>openInBrowser\<close> then
  does is not the same for both: after \<open>will-navigate\<close> found no match, a URL of
  protocol \<open>http:\<close> or \<open>https:\<close> is opened in the browser and one of another protocol
  is only kept from loading (the parser being one that rejects the empty string).
\<close>

theorem classification_by_host_and_path:
  assumes "hostname a = hostname b" and "pathname a = pathname b"
  shows "domainAndPathSame a e = domainAndPathSame b e \<and>
    matches_entry lib a entries = matches_entry lib b entries \<and>
    (new_URL lib u = Some a \<and> new_URL lib [] = None \<longrightarrow>
       will_navigate lib cfg event u w =
         (case matches_entry lib b (ALWAYS_OPEN_IN_APP cfg) of
            Inl err \<Rightarrow> (Inl err, w)
          | Inr matched \<Rightarrow>
              if matched then (Inr (), w)
              else if protocol a = ''http:'' \<or> protocol a = ''https:''
              then (Inr (), w\<lparr>logged := logged w @
                                  [(Log_Info, ''Using system default handler for URL: '' @ u)],
                              opened := opened w @ [u],
                              prevented := prevented w @ [event]\<rparr>)
              else (Inr (), w\<lparr>prevented := prevented w @ [event]\<rparr>))) \<and>
    (new_URL lib u = Some a \<longrightarrow>
       new_window ar lib cfg event u opts w =
         (case matches_entry lib b (DONT_OPEN_IN_BROWSER cfg) of
            Inl err \<Rightarrow> (Inl err, w)
          | Inr matched \<Rightarrow>
              if matched
              then (Inr (opts\<lparr>opt_x := num_add ar (opt_x opts) (OFFSET_NEW_WINDOW ar),
                              opt_y := num_add ar (opt_y opts) (OFFSET_NEW_WINDOW ar),
                              opt_width := num_mul ar (opt_width opts) (SCALE_NEW_WINDOW_FACTOR ar),
                              opt_height := num_mul ar (opt_height opts) (SCALE_NEW_WINDOW_FACTOR ar)\<rparr>),
                    w\<lparr>logged := logged w @ [(Log_Info, ''Open in new window for '' @ u)]\<rparr>)
              else bind_io (replaceInternalCalypsoUrl cfg a) (\<lambda>replaced.
                   seq_io (openInBrowser lib event (format lib replaced)) (ret opts)) w))"
proof -
  have loop: "matches_entry lib a entries = matches_entry lib b entries" for entries
    using assms by (rule matches_entry_cong)
  have "will_navigate lib cfg event u w =
      (case matches_entry lib b (ALWAYS_OPEN_IN_APP cfg) of
         Inl err \<Rightarrow> (Inl err, w)
       | Inr matched \<Rightarrow>
           if matched then (Inr (), w)
           else if protocol a = ''http:'' \<or> protocol a = ''https:''
           then (Inr (), w\<lparr>logged := logged w @
                               [(Log_Info, ''Using system default handler for URL: '' @ u)],
                           opened := opened w @ [u],
                           prevented := prevented w @ [event]\<rparr>)
           else (Inr (), w\<lparr>prevented := prevented w @ [event]\<rparr>))"
    if "new_URL lib u = Some a" and "new_URL lib [] = None"
    using that
    by (simp add: will_navigate_by_loop loop openInBrowser_parsed split: sum.splits)
  then show ?thesis
    using assms by (simp add: domainAndPathSame_def loop new_window_by_loop)
qed

lemma parse_localhost_port:
  "parseURL ''https://localhost:8080/?tab=1#top'' =
    Some \<lparr>protocol = ''https:'', username = [], password = [], hostname = ''localhost'',
          port = ''8080'', pathname = ''/'', search = ''?tab=1'', hash = ''#top''\<rparr>"
  by (simp add: url_eval)

lemma parse_ftp_evil:
  "parseURL ''ftp://evil.example/x'' =
    Some \<lparr>protocol = ''ftp:'', username = [], password = [], hostname = ''evil.example'',
          port = [], pathname = ''/x'', search = [], hash = []\<rparr>"
  by (simp add: url_eval)

text \<open>The entry \<open>http://localhost\<close> matches \<open>https://localhost:8080/?tab=1#top\<close> as it
  matches \<open>http://localhost/\<close>: a navigation to it stays in the window. No entry
  matches \<open>ftp://evil.example/x\<close>, as none matches \<open>http://evil.example/x\<close>: a
  navigation to it is kept from loading, and it is not opened in the browser.\<close>

theorem classification_by_host_and_path_witness:
  "matches_entry node_url
     \<lparr>protocol = ''https:'', username = [], password = [], hostname = ''localhost'',
      port = ''8080'', pathname = ''/'', search = ''?tab=1'', hash = ''#top''\<rparr>
     (ALWAYS_OPEN_IN_APP example_config) =
   matches_entry node_url
     \<lparr>protocol = ''http:'', username = [], password = [], hostname = ''localhost'',
      port = [], pathname = ''/'', search = [], hash = []\<rparr>
     (ALWAYS_OPEN_IN_APP example_config) \<and>
   matches_entry node_url
     \<lparr>protocol = ''http:'', username = [], password = [], hostname = ''localhost'',
      port = [], pathname = ''/'', search = [], hash = []\<rparr>
     (ALWAYS_OPEN_IN_APP example_config) = Inr True \<and>
   will_navigate node_url example_config 1 ''https://localhost:8080/?tab=1#top'' initial_world =
     (Inr (), initial_world) \<and>
   will_navigate node_url example_config 1 ''ftp://evil.example/x'' initial_world =
     (Inr (), initial_world\<lparr>prevented := [1]\<rparr>)"
proof -
  show ?thesis
    using classification_by_host_and_path
      [where a = "\<lparr>protocol = ''https:'', username = [], password = [],
            hostname = ''localhost'', port = ''8080'', pathname = ''/'', search = ''?tab=1'',
            hash = ''#top''\<rparr>"
        and b = "\<lparr>protocol = ''http:'', username = [], password = [],
            hostname = ''localhost'', port = [], pathname = ''/'', search = [], hash = []\<rparr>"
        and lib = node_url and entries = "ALWAYS_OPEN_IN_APP example_config"
        and u = "''https://localhost:8080/?tab=1#top''" and cfg = example_config
        and event = 1 and w = initial_world and ar = binary64
        and opts = "\<lparr>opt_x = 0, opt_y = 0, opt_width = 0, opt_height = 0\<rparr>"]
      classification_by_host_and_path
      [where a = "\<lparr>protocol = ''ftp:'', username = [], password = [],
            hostname = ''evil.example'', port = [], pathname = ''/x'', search = [],
            hash = []\<rparr>"
        and b = "\<lparr>protocol = ''http:'', username = [], password = [],
            hostname = ''evil.example'', port = [], pathname = ''/x'', search = [],
            hash = []\<rparr>"
        and lib = node_url and entries = "ALWAYS_OPEN_IN_APP example_config"
        and u = "''ftp://evil.example/x''" and cfg = example_config
        and event = 1 and w = initial_world and ar = binary64
        and opts = "\<lparr>opt_x = 0, opt_y = 0, opt_width = 0, opt_height = 0\<rparr>"]
    by (simp add: parse_empty ALWAYS_OPEN_IN_APP_def example_config_def node_url_simps
        parse_policy parse_localhost_port parse_ftp_evil domainAndPathSame_def
        initial_world_def)
qed

text \<open>Claim C10 as stated has the same routing for two URLs that differ in scheme
  only. \<open>http://evil.example/x\<close> and \<open>ftp://evil.example/x\<close> have the same host name and
  path name; a navigation to the first is opened in the browser, a navigation to the
  second is not.\<close>

theorem scheme_decides_external_browser:
  "new_URL node_url ''http://evil.example/x'' =
     Some \<lparr>protocol = ''http:'', username = [], password = [], hostname = ''evil.example'',
           port = [], pathname = ''/x'', search = [], hash = []\<rparr> \<and>
   new_URL node_url ''ftp://evil.example/x'' =
     Some \<lparr>protocol = ''ftp:'', username = [], password = [], hostname = ''evil.example'',
           port = [], pathname = ''/x'', search = [], hash = []\<rparr> \<and>
   opened (snd (will_navigate node_url example_config 1 ''http://evil.example/x''
     initial_world)) = [''http://evil.example/x''] \<and>
   opened (snd (will_navigate node_url example_config 1 ''ftp://evil.example/x''
     initial_world)) = []"
proof -
  have e: "new_URL node_url [] = None"
    by (simp add: node_url_simps parse_empty)
  have a: "new_URL node_url ''http://evil.example/x'' =
      Some \<lparr>protocol = ''http:'', username = [], password = [], hostname = ''evil.example'',
            port = [], pathname = ''/x'', search = [], hash = []\<rparr>"
    by (simp add: node_url_simps parse_evil)
  have b: "new_URL node_url ''ftp://evil.example/x'' =
      Some \<lparr>protocol = ''ftp:'', username = [], password = [], hostname = ''evil.example'',
            port = [], pathname = ''/x'', search = [], hash = []\<rparr>"
    by (simp add: node_url_simps parse_ftp_evil)
  show ?thesis
    by (simp add: will_navigate_by_loop [OF a] will_navigate_by_loop [OF b]
        openInBrowser_parsed [OF a e] openInBrowser_parsed [OF b e]
        ALWAYS_OPEN_IN_APP_def example_config_def node_url_simps parse_policy
        parse_evil parse_ftp_evil domainAndPathSame_def initial_world_def)
qed

subsection \<open>The prompt of \<open>cannot-open-editor\<close>\<close>

lemma parse_origin:
  "parseURL ''https://example.wordpress.com'' =
    Some \<lparr>protocol = ''https:'', username = [], password = [],
          hostname = ''example.wordpress.com'', port = [], pathname = ''/'',
          search = [], hash = []\<rparr>"
  by (simp add: url_eval)

lemma parse_editor:
  "parseURL ''https://example.wordpress.com/wp-admin/post.php?post=7'' =
    Some \<lparr>protocol = ''https:'', username = [], password = [],
          hostname = ''example.wordpress.com'', port = [], pathname = ''/wp-admin/post.php'',
          search = ''?post=7'', hash = []\<rparr>"
  by (simp add: url_eval)

lemma parse_ftp_editor:
  "parseURL ''ftp://example.wordpress.com/wp-admin/post.php'' =
    Some \<lparr>protocol = ''ftp:'', username = [], password = [],
          hostname = ''example.wordpress.com'', port = [], pathname = ''/wp-admin/post.php'',
          search = [], hash = []\<rparr>"
  by (simp add: url_eval)

lemma valid_editor:
  "isValidBrowserUrl node_url ''https://example.wordpress.com/wp-admin/post.php?post=7'' =
     Inr (JString ''https://example.wordpress.com/wp-admin/post.php?post=7'')"
  by (simp add: isValidBrowserUrl_def node_url_simps parse_editor)

lemma invalid_ftp_editor:
  "isValidBrowserUrl node_url ''ftp://example.wordpress.com/wp-admin/post.php'' =
     Inr (JBool False)"
  by (simp add: isValidBrowserUrl_def node_url_simps parse_ftp_editor)

lemma throws_relative:
  "isValidBrowserUrl node_url ''/wp-admin/post.php?post=7'' = Inl TypeError"
  by (simp add: isValidBrowserUrl_def node_url_simps parse_relative)

lemmas prompt_defs =
  promptWpAdminAuth_def promptWpAdminAuth_try_def dialog_showMessageBox_def buttons_def
  proceedInBrowser_def cancel_def enableSSOandContinue_def showMySites_def saveSetting_def

text \<open>The prompt of a user without admin rights who clicks the first button, with
  collaborators that do not throw: what is left to \<open>openInBrowser\<close>.\<close>

lemma prompt_proceed:
  assumes "\<not> isAdmin i" and "showMessageBox en = Inr 0"
    and "\<not> showMySites_throws en" and "\<not> saveSetting_throws en"
  shows "promptWpAdminAuth lib en event i parsedURL w =
    (case openInBrowser lib event (editorUrl i)
            (w\<lparr>dialogs := dialogs w @ [[''Proceed in Browser'', ''Cancel'']],
               logged := logged w @ [(Log_Info, ''User selected 'Proceed in Browser'...'')]\<rparr>) of
       (Inl e, w') \<Rightarrow>
         (Inr (), w'\<lparr>logged := logged w' @
            [(Log_Error, ''Failed to prompt for Jetpack authorization: '')]\<rparr>)
     | (Inr done, w') \<Rightarrow>
         (Inr (), w'\<lparr>my_sites := Suc (my_sites w'),
                     settings := settings w' @
                       [(LAST_LOCATION, ''/stats/day/'' @ hostname parsedURL)]\<rparr>))"
  using assms by (simp add: prompt_defs io_defs split: prod.splits sum.splits)

lemma cannot_open_editor_parsed:
  assumes "new_URL lib (origin i) = Some parsedURL"
  shows "cannot_open_editor lib en event i w =
    promptWpAdminAuth lib en event i parsedURL
      (w\<lparr>logged := logged w @ [(Log_Info, ''Cannot open editor for site: '')]\<rparr>)"
  using assms by (simp add: cannot_open_editor_def construct_URL_def io_defs)

text \<open>
  Claim C8, as the code has it. The request comes from a user without admin rights,
  its origin parses to \<open>parsedURL\<close>, the user clicks the first button and no
  collaborator throws; the parser rejects the empty string. The dialog shown has the
  two buttons \<open>Proceed in Browser\<close> and \<open>Cancel\<close>. If the editor URL parses with
  protocol \<open>http:\<close> or \<open>https:\<close>, it is handed to \<open>shell.openExternal\<close>, then
  \<open>showMySites\<close> is called and the last location is saved as \<open>/stats/day/\<close> followed by
  the host name of the origin. If it parses with another protocol, nothing is opened,
  and \<open>showMySites\<close> and the setting follow all the same. If it does not parse, the
  \<open>TypeError\<close> is caught and logged, and neither \<open>showMySites\<close> nor the setting
  follows.
\<close>

theorem proceed_in_browser_non_admin:
  assumes "\<not> isAdmin i" and "new_URL lib (origin i) = Some parsedURL"
    and "showMessageBox en = Inr 0"
    and "\<not> showMySites_throws en" and "\<not> saveSetting_throws en"
    and "new_URL lib [] = None"
  shows "cannot_open_editor lib en event i w =
    (case new_URL lib (editorUrl i) of
       Some parsed \<Rightarrow>
         if protocol parsed = ''http:'' \<or> protocol parsed = ''https:''
         then (Inr (),
               w\<lparr>logged := logged w @
                    [(Log_Info, ''Cannot open editor for site: ''),
                     (Log_Info, ''User selected 'Proceed in Browser'...''),
                     (Log_Info, ''Using system default handler for URL: '' @ editorUrl i)],
                 dialogs := dialogs w @ [[''Proceed in Browser'', ''Cancel'']],
                 opened := opened w @ [editorUrl i],
                 prevented := prevented w @ [event],
                 my_sites := Suc (my_sites w),
                 settings := settings w @
                   [(LAST_LOCATION, ''/stats/day/'' @ hostname parsedURL)]\<rparr>)
         else (Inr (),
               w\<lparr>logged := logged w @
                    [(Log_Info, ''Cannot open editor for site: ''),
                     (Log_Info, ''User selected 'Proceed in Browser'...'')],
                 dialogs := dialogs w @ [[''Proceed in Browser'', ''Cancel'']],
                 prevented := prevented w @ [event],
                 my_sites := Suc (my_sites w),
                 settings := settings w @
                   [(LAST_LOCATION, ''/stats/day/'' @ hostname parsedURL)]\<rparr>)
     | None \<Rightarrow>
         (Inr (),
          w\<lparr>logged := logged w @
               [(Log_Info, ''Cannot open editor for site: ''),
                (Log_Info, ''User selected 'Proceed in Browser'...''),
                (Log_Error, ''Failed to prompt for Jetpack authorization: '')],
            dialogs := dialogs w @ [[''Proceed in Browser'', ''Cancel'']]\<rparr>))"
proof -
  note start = cannot_open_editor_parsed [OF assms(2)]
    prompt_proceed [OF assms(1) assms(3) assms(4) assms(5)]
  show ?thesis
  proof (cases rule: option.exhaust [of "new_URL lib (editorUrl i)"])
    case None
    then have "isValidBrowserUrl lib (editorUrl i) = Inl TypeError"
      by (simp add: isValidBrowserUrl_def)
    then show ?thesis
      using None by (simp add: start openInBrowser_throws)
  next
    case (Some parsed)
    show ?thesis
      using Some by (simp add: start openInBrowser_parsed [OF Some assms(6)])
  qed
qed


lemma origin_of_example:
  "new_URL node_url (origin example_request) =
    Some \<lparr>protocol = ''https:'', username = [], password = [],
          hostname = ''example.wordpress.com'', port = [], pathname = ''/'',
          search = [], hash = []\<rparr>"
  by (simp add: example_request_def node_url_simps parse_origin)

theorem proceed_in_browser_non_admin_witness:
  "cannot_open_editor node_url (user_clicks 0) 1 example_request initial_world =
    (Inr (),
     initial_world
       \<lparr>logged :=
          [(Log_Info, ''Cannot open editor for site: ''),
           (Log_Info, ''User selected 'Proceed in Browser'...''),
           (Log_Info, ''Using system default handler for URL: https://example.wordpress.com/wp-admin/post.php?post=7'')],
        dialogs := [[''Proceed in Browser'', ''Cancel'']],
        opened := [''https://example.wordpress.com/wp-admin/post.php?post=7''],
        prevented := [1],
        my_sites := 1,
        settings := [(LAST_LOCATION, ''/stats/day/example.wordpress.com'')]\<rparr>)"
proof -
  have a: "\<not> isAdmin example_request"
    by (simp add: example_request_def)
  have e: "new_URL node_url [] = None"
    by (simp add: node_url_simps parse_empty)
  show ?thesis
    using proceed_in_browser_non_admin [OF a origin_of_example _ _ _ e, of "user_clicks 0" 1
        initial_world]
    by (simp add: user_clicks_def example_request_def node_url_simps parse_editor
        initial_world_def)
qed

text \<open>Claim C8 as stated has the external browser opened whatever the editor URL is.
  With an editor URL of scheme \<open>ftp\<close> nothing is opened; with one that does not parse,
  nothing is opened, \<open>showMySites\<close> is not called and no setting is saved.\<close>

theorem proceed_in_browser_opens_nothing:
  "opened (snd (cannot_open_editor node_url (user_clicks 0) 1
      (example_request\<lparr>editorUrl := ''ftp://example.wordpress.com/wp-admin/post.php''\<rparr>)
      initial_world)) = [] \<and>
   cannot_open_editor node_url (user_clicks 0) 1
      (example_request\<lparr>editorUrl := ''/wp-admin/post.php?post=7''\<rparr>) initial_world =
    (Inr (),
     initial_world
       \<lparr>logged :=
          [(Log_Info, ''Cannot open editor for site: ''),
           (Log_Info, ''User selected 'Proceed in Browser'...''),
           (Log_Error, ''Failed to prompt for Jetpack authorization: '')],
        dialogs := [[''Proceed in Browser'', ''Cancel'']]\<rparr>)"
proof -
  have o: "new_URL node_url (origin (example_request\<lparr>editorUrl := u\<rparr>)) =
      Some \<lparr>protocol = ''https:'', username = [], password = [],
          hostname = ''example.wordpress.com'', port = [], pathname = ''/'',
          search = [], hash = []\<rparr>" for u
    using origin_of_example by simp
  have p: "\<not> isAdmin (example_request\<lparr>editorUrl := u\<rparr>)" for u
    by (simp add: example_request_def)
  have c: "showMessageBox (user_clicks 0) = Inr 0" "\<not> showMySites_throws (user_clicks 0)"
    "\<not> saveSetting_throws (user_clicks 0)"
    by (simp_all add: user_clicks_def)
  show ?thesis
    by (simp add: cannot_open_editor_parsed [OF o] prompt_proceed [OF p c]
        openInBrowser_invalid [OF invalid_ftp_editor] openInBrowser_throws [OF throws_relative]
        initial_world_def)
qed

text \<open>What the \<open>try\<close> block has done when it throws, with helpers that return: it has
  shown the dialog and written to the log at most. The dialog call throws before any
  effect, and \<open>openInBrowser\<close> throws on an editor URL that does not parse before it
  opens anything or calls \<open>preventDefault\<close>.\<close>

lemma try_block_throws_before_effects:
  assumes "\<not> showMySites_throws en" and "\<not> saveSetting_throws en"
    and "promptWpAdminAuth_try lib en event i parsedURL w = (Inl e, w')"
  shows "opened w' = opened w \<and> prevented w' = prevented w \<and> my_sites w' = my_sites w \<and>
    settings w' = settings w \<and> sent w' = sent w \<and> listeners w' = listeners w"
  using assms
  by (auto simp add: prompt_defs io_defs openInBrowser_def
      split: sum.splits if_splits prod.splits)

text \<open>
  Claim C9. \<open>promptWpAdminAuth\<close> never throws: what its \<open>try\<close> block throws is caught
  and logged at error level. When the message box itself throws, that line of the log
  is the only effect. With helpers \<open>showMySites\<close> and \<open>saveSetting\<close> that return, as
  their contract has it, whenever the block throws the flow ends with the line logged
  after what the block left, and the block has opened nothing in the browser, has not
  called \<open>showMySites\<close> and has saved no setting; it has not called \<open>preventDefault\<close>,
  sent a message or registered a listener either.
\<close>

theorem promptWpAdminAuth_catches:
  "fst (promptWpAdminAuth lib en event i parsedURL w) = Inr () \<and>
   (showMessageBox en = Inl e \<longrightarrow>
      promptWpAdminAuth lib en event i parsedURL w =
        (Inr (), w\<lparr>logged := logged w @
           [(Log_Error, ''Failed to prompt for Jetpack authorization: '')]\<rparr>)) \<and>
   (\<not> showMySites_throws en \<and> \<not> saveSetting_throws en \<and>
    promptWpAdminAuth_try lib en event i parsedURL w = (Inl e, w') \<longrightarrow>
      promptWpAdminAuth lib en event i parsedURL w =
        (Inr (), w'\<lparr>logged := logged w' @
           [(Log_Error, ''Failed to prompt for Jetpack authorization: '')]\<rparr>) \<and>
      opened w' = opened w \<and> my_sites w' = my_sites w \<and> settings w' = settings w \<and>
      prevented w' = prevented w \<and> sent w' = sent w \<and> listeners w' = listeners w)"
proof -
  have caught: "fst (promptWpAdminAuth lib en event i parsedURL w) = Inr ()"
    by (simp add: promptWpAdminAuth_def try_catch_def log_error_def
        split: prod.splits sum.splits)
  have dialog: "promptWpAdminAuth lib en event i parsedURL w =
      (Inr (), w\<lparr>logged := logged w @
         [(Log_Error, ''Failed to prompt for Jetpack authorization: '')]\<rparr>)"
    if "showMessageBox en = Inl e"
    using that
    by (simp add: promptWpAdminAuth_def try_catch_def log_error_def promptWpAdminAuth_try_def
        dialog_showMessageBox_def bind_io_def)
  have later: "promptWpAdminAuth lib en event i parsedURL w =
      (Inr (), w'\<lparr>logged := logged w' @
         [(Log_Error, ''Failed to prompt for Jetpack authorization: '')]\<rparr>)"
    if "promptWpAdminAuth_try lib en event i parsedURL w = (Inl e, w')"
    using that by (simp add: promptWpAdminAuth_def try_catch_def log_error_def)
  show ?thesis
    using caught dialog later try_block_throws_before_effects [of en lib event i parsedURL w e w']
    by blast
qed

lemma try_block_relative_editor:
  "promptWpAdminAuth_try node_url (user_clicks 0) event
     (example_request\<lparr>editorUrl := ''/wp-admin/post.php?post=7''\<rparr>) parsedURL w =
    (Inl TypeError,
     w\<lparr>dialogs := dialogs w @ [[''Proceed in Browser'', ''Cancel'']],
       logged := logged w @ [(Log_Info, ''User selected 'Proceed in Browser'...'')]\<rparr>)"
  by (simp add: prompt_defs io_defs user_clicks_def example_request_def
      openInBrowser_throws [OF throws_relative])

text \<open>A message box that throws, and an editor URL that does not parse.\<close>

theorem promptWpAdminAuth_catches_witness:
  "promptWpAdminAuth node_url ((user_clicks 0)\<lparr>showMessageBox := Inl Collaborator_Error\<rparr>) 1
     example_request
     \<lparr>protocol = ''https:'', username = [], password = [],
      hostname = ''example.wordpress.com'', port = [], pathname = ''/'',
      search = [], hash = []\<rparr> initial_world =
    (Inr (), initial_world
       \<lparr>logged := [(Log_Error, ''Failed to prompt for Jetpack authorization: '')]\<rparr>) \<and>
   promptWpAdminAuth node_url (user_clicks 0) 1
     (example_request\<lparr>editorUrl := ''/wp-admin/post.php?post=7''\<rparr>)
     \<lparr>protocol = ''https:'', username = [], password = [],
      hostname = ''example.wordpress.com'', port = [], pathname = ''/'',
      search = [], hash = []\<rparr> initial_world =
    (Inr (), initial_world
       \<lparr>dialogs := [[''Proceed in Browser'', ''Cancel'']],
        logged :=
          [(Log_Info, ''User selected 'Proceed in Browser'...''),
           (Log_Error, ''Failed to prompt for Jetpack authorization: '')]\<rparr>)"
proof -
  have c: "\<not> showMySites_throws (user_clicks 0)" "\<not> saveSetting_throws (user_clicks 0)"
    by (simp_all add: user_clicks_def)
  have d: "showMessageBox ((user_clicks 0)\<lparr>showMessageBox := Inl Collaborator_Error\<rparr>) =
      Inl Collaborator_Error"
    by simp
  note t = try_block_relative_editor [of 1
      "\<lparr>protocol = ''https:'', username = [], password = [],
        hostname = ''example.wordpress.com'', port = [], pathname = ''/'',
        search = [], hash = []\<rparr>" initial_world]
  have first: "promptWpAdminAuth node_url
      ((user_clicks 0)\<lparr>showMessageBox := Inl Collaborator_Error\<rparr>) 1 example_request
      \<lparr>protocol = ''https:'', username = [], password = [],
       hostname = ''example.wordpress.com'', port = [], pathname = ''/'',
       search = [], hash = []\<rparr> initial_world =
     (Inr (), initial_world\<lparr>logged := logged initial_world @
        [(Log_Error, ''Failed to prompt for Jetpack authorization: '')]\<rparr>)"
    using d promptWpAdminAuth_catches [of node_url
      "(user_clicks 0)\<lparr>showMessageBox := Inl Collaborator_Error\<rparr>" 1 example_request
      "\<lparr>protocol = ''https:'', username = [], password = [],
        hostname = ''example.wordpress.com'', port = [], pathname = ''/'',
        search = [], hash = []\<rparr>" initial_world Collaborator_Error]
    by blast
  have second: "promptWpAdminAuth node_url (user_clicks 0) 1
      (example_request\<lparr>editorUrl := ''/wp-admin/post.php?post=7''\<rparr>)
      \<lparr>protocol = ''https:'', username = [], password = [],
       hostname = ''example.wordpress.com'', port = [], pathname = ''/'',
       search = [], hash = []\<rparr> initial_world =
     (Inr (),
      (initial_world
         \<lparr>dialogs := dialogs initial_world @ [[''Proceed in Browser'', ''Cancel'']],
          logged := logged initial_world @
            [(Log_Info, ''User selected 'Proceed in Browser'...'')]\<rparr>)
       \<lparr>logged := logged (initial_world
           \<lparr>dialogs := dialogs initial_world @ [[''Proceed in Browser'', ''Cancel'']],
            logged := logged initial_world @
              [(Log_Info, ''User selected 'Proceed in Browser'...'')]\<rparr>) @
          [(Log_Error, ''Failed to prompt for Jetpack authorization: '')]\<rparr>)"
    using c t promptWpAdminAuth_catches [of node_url "user_clicks 0" 1
      "example_request\<lparr>editorUrl := ''/wp-admin/post.php?post=7''\<rparr>"
      "\<lparr>protocol = ''https:'', username = [], password = [],
        hostname = ''example.wordpress.com'', port = [], pathname = ''/'',
        search = [], hash = []\<rparr>" initial_world TypeError
      "initial_world
         \<lparr>dialogs := dialogs initial_world @ [[''Proceed in Browser'', ''Cancel'']],
          logged := logged initial_world @
            [(Log_Info, ''User selected 'Proceed in Browser'...'')]\<rparr>"]
    by blast
  show ?thesis
    using first second by (simp add: initial_world_def)
qed

lemma admin_fields:
  "isAdmin admin_request" "siteId admin_request = 7"
  by (simp_all add: admin_request_def example_request_def)

text \<open>
  An admin who chooses \<open>Enable SSO and Continue\<close>: the prompt registers the listener
  for the activation response and sends the request to enable SSO. \<open>showMySites\<close> is
  not called and no setting is saved, whatever the two helpers would do.
\<close>

theorem enable_sso_keeps_location:
  assumes "isAdmin i" and "showMessageBox en = Inr 0"
  shows "promptWpAdminAuth lib en event i parsedURL w =
    (Inr (),
     w\<lparr>dialogs := dialogs w @
          [[''Enable SSO and Continue'', ''Proceed in Browser'', ''Cancel'']],
       logged := logged w @ [(Log_Info, ''User selected 'Enable SSO and Continue' '')],
       listeners := listeners w @
          [(''enable-site-option-response'', Enable_Site_Option_Response i)],
       sent := sent w @ [(''enable-site-option'', Site_Option (siteId i) ''sso'')]\<rparr>)"
  using assms by (simp add: prompt_defs io_defs)

theorem enable_sso_keeps_location_witness:
  "promptWpAdminAuth node_url
     ((user_clicks 0)\<lparr>showMySites_throws := True, saveSetting_throws := True\<rparr>) 1
     admin_request
     \<lparr>protocol = ''https:'', username = [], password = [],
      hostname = ''example.wordpress.com'', port = [], pathname = ''/'',
      search = [], hash = []\<rparr> initial_world =
    (Inr (),
     initial_world
       \<lparr>dialogs := [[''Enable SSO and Continue'', ''Proceed in Browser'', ''Cancel'']],
        logged := [(Log_Info, ''User selected 'Enable SSO and Continue' '')],
        listeners := [(''enable-site-option-response'', Enable_Site_Option_Response admin_request)],
        sent := [(''enable-site-option'', Site_Option 7 ''sso'')]\<rparr>)"
  using enable_sso_keeps_location [of admin_request
      "(user_clicks 0)\<lparr>showMySites_throws := True, saveSetting_throws := True\<rparr>"
      node_url 1
      "\<lparr>protocol = ''https:'', username = [], password = [],
        hostname = ''example.wordpress.com'', port = [], pathname = ''/'',
        search = [], hash = []\<rparr>" initial_world]
  by (simp add: admin_fields user_clicks_def initial_world_def)

subsection \<open>The listeners of the Enable-SSO-and-Continue flow\<close>

lemma no_redirect_in_editor:
  "searchParamsGet
     \<lparr>protocol = ''https:'', username = [], password = [],
      hostname = ''example.wordpress.com'', port = [], pathname = ''/wp-admin/post.php'',
      search = ''?post=7'', hash = []\<rparr> ''redirect_to'' = None"
  by (simp add: searchParamsGet_def split_first_def)

lemma relative_of_editor:
  "extractRelativeEditorUrl node_url (editorUrl admin_request) =
     Inr ''https://example.wordpress.com/wp-admin/post.php?post=7''"
  by (simp add: extractRelativeEditorUrl_def admin_request_def example_request_def
      node_url_simps parse_editor no_redirect_in_editor)

lemma origin_of_admin:
  "new_URL node_url (origin admin_request) =
    Some \<lparr>protocol = ''https:'', username = [], password = [],
          hostname = ''example.wordpress.com'', port = [], pathname = ''/'',
          search = [], hash = []\<rparr>"
  using origin_of_example by (simp add: admin_request_def)

text \<open>The three listeners, run on any world.\<close>

lemma run_cannot_open_editor_admin:
  "run_listener node_url (user_clicks 0) event Cannot_Open_Editor
     (Ev_Cannot_Open_Editor admin_request) w =
   (Inr (),
    w\<lparr>logged := logged w @
         [(Log_Info, ''Cannot open editor for site: ''),
          (Log_Info, ''User selected 'Enable SSO and Continue' '')],
      dialogs := dialogs w @ [[''Enable SSO and Continue'', ''Proceed in Browser'', ''Cancel'']],
      listeners := listeners w @
         [(''enable-site-option-response'', Enable_Site_Option_Response admin_request)],
      sent := sent w @ [(''enable-site-option'', Site_Option 7 ''sso'')]\<rparr>)"
  by (simp add: async_def cannot_open_editor_parsed [OF origin_of_admin] prompt_defs
      io_defs user_clicks_def admin_fields)

lemma run_enable_site_option_response:
  "run_listener lib en event (Enable_Site_Option_Response i)
     (Ev_Enable_Site_Option_Response ''success'') w =
   (Inr (),
    w\<lparr>listeners :=
         filter (\<lambda>cl. fst cl \<noteq> ''enable-site-option-response'') (listeners w) @
         [(''request-site-response'', Request_Site_Response i)],
      logged := logged w @ [(Log_Info, ''SSO enabled for site: '')],
      sent := sent w @ [(''request-site'', Site_Id (siteId i))]\<rparr>)"
  by (simp add: io_defs)

lemma run_request_site_response:
  "run_listener node_url en event (Request_Site_Response admin_request) e w =
   (Inr (),
    w\<lparr>logged := logged w @ [(Log_Info, ''Received state refresh for site: '')],
      sent := sent w @
        [(''navigate'', Str ''https://example.wordpress.com/wp-admin/post.php?post=7'')]\<rparr>)"
  by (simp add: io_defs relative_of_editor)

lemmas run_flow =
  run_cannot_open_editor_admin run_enable_site_option_response run_request_site_response

lemma loaded_world:
  "loaded = initial_world
     \<lparr>listeners := [(''cannot-open-editor'', Cannot_Open_Editor),
                     (''jetpack-module-activate-status'', Jetpack_Module_Activate_Status)]\<rparr>"
  by (simp add: loaded_def module_exports_def io_defs initial_world_def)

lemma after_one_flow:
  "ipc_emit_all node_url (user_clicks 0) sso_flow loaded =
    initial_world
      \<lparr>logged :=
         [(Log_Info, ''Cannot open editor for site: ''),
          (Log_Info, ''User selected 'Enable SSO and Continue' ''),
          (Log_Info, ''SSO enabled for site: ''),
          (Log_Info, ''Received state refresh for site: '')],
       dialogs := [[''Enable SSO and Continue'', ''Proceed in Browser'', ''Cancel'']],
       sent :=
         [(''enable-site-option'', Site_Option 7 ''sso''),
          (''request-site'', Site_Id 7),
          (''navigate'', Str ''https://example.wordpress.com/wp-admin/post.php?post=7'')],
       listeners :=
         [(''cannot-open-editor'', Cannot_Open_Editor),
          (''jetpack-module-activate-status'', Jetpack_Module_Activate_Status),
          (''request-site-response'', Request_Site_Response admin_request)]\<rparr>"
  by (simp add: ipc_emit_all_def sso_flow_def loaded_world ipc_emit_def initial_world_def
      run_flow seq_io_def bind_io_def ret_def admin_fields del: run_listener.simps)


lemma after_two_flows:
  "ipc_emit_all node_url (user_clicks 0) (sso_flow @ sso_flow) loaded =
    initial_world
      \<lparr>logged :=
         [(Log_Info, ''Cannot open editor for site: ''),
          (Log_Info, ''User selected 'Enable SSO and Continue' ''),
          (Log_Info, ''SSO enabled for site: ''),
          (Log_Info, ''Received state refresh for site: ''),
          (Log_Info, ''Cannot open editor for site: ''),
          (Log_Info, ''User selected 'Enable SSO and Continue' ''),
          (Log_Info, ''SSO enabled for site: ''),
          (Log_Info, ''Received state refresh for site: ''),
          (Log_Info, ''Received state refresh for site: '')],
       dialogs :=
         [[''Enable SSO and Continue'', ''Proceed in Browser'', ''Cancel''],
          [''Enable SSO and Continue'', ''Proceed in Browser'', ''Cancel'']],
       sent :=
         [(''enable-site-option'', Site_Option 7 ''sso''),
          (''request-site'', Site_Id 7),
          (''navigate'', Str ''https://example.wordpress.com/wp-admin/post.php?post=7''),
          (''enable-site-option'', Site_Option 7 ''sso''),
          (''request-site'', Site_Id 7),
          (''navigate'', Str ''https://example.wordpress.com/wp-admin/post.php?post=7''),
          (''navigate'', Str ''https://example.wordpress.com/wp-admin/post.php?post=7'')],
       listeners :=
         [(''cannot-open-editor'', Cannot_Open_Editor),
          (''jetpack-module-activate-status'', Jetpack_Module_Activate_Status),
          (''request-site-response'', Request_Site_Response admin_request),
          (''request-site-response'', Request_Site_Response admin_request)]\<rparr>"
  by (simp add: ipc_emit_all_def sso_flow_def loaded_world ipc_emit_def initial_world_def
      run_flow seq_io_def bind_io_def ret_def admin_fields del: run_listener.simps)

lemma request_site_response_keeps_listeners:
  "listeners (snd (run_listener lib en event (Request_Site_Response i) e w)) = listeners w"
  by (simp add: io_defs split: sum.splits)

text \<open>The listener on \<open>enable-site-option-response\<close> fires once: when it has run,
  whatever the status, no listener is registered on its channel.\<close>

theorem enable_site_option_response_removed:
  "filter (\<lambda>cl. fst cl = ''enable-site-option-response'')
     (listeners (snd (run_listener lib en event (Enable_Site_Option_Response i)
        (Ev_Enable_Site_Option_Response status) w))) = []"
  by (simp add: io_defs filter_empty_conv)

text \<open>
  Claim C5 asks that each of the two listeners of the flow is removed once it has
  fired. The listener on \<open>enable-site-option-response\<close> removes every listener of its
  channel; the listener on \<open>request-site-response\<close> leaves the registry as it is, on
  every world. After one flow it is still registered, and after a second flow there
  are two of them: the one response of the second flow sends \<open>navigate\<close> twice.
\<close>

theorem request_site_response_listener_stays:
  "listeners (snd (run_listener lib en event (Request_Site_Response i) e w)) = listeners w \<and>
   listeners (ipc_emit_all node_url (user_clicks 0) sso_flow loaded) =
     [(''cannot-open-editor'', Cannot_Open_Editor),
      (''jetpack-module-activate-status'', Jetpack_Module_Activate_Status),
      (''request-site-response'', Request_Site_Response admin_request)] \<and>
   sent (ipc_emit_all node_url (user_clicks 0) (sso_flow @ sso_flow) loaded) =
     [(''enable-site-option'', Site_Option 7 ''sso''),
      (''request-site'', Site_Id 7),
      (''navigate'', Str ''https://example.wordpress.com/wp-admin/post.php?post=7''),
      (''enable-site-option'', Site_Option 7 ''sso''),
      (''request-site'', Site_Id 7),
      (''navigate'', Str ''https://example.wordpress.com/wp-admin/post.php?post=7''),
      (''navigate'', Str ''https://example.wordpress.com/wp-admin/post.php?post=7'')]"
  by (simp add: request_site_response_keeps_listeners after_one_flow after_two_flows
      initial_world_def del: run_listener.simps)

end
